theory Spec2Isabelle
  imports Complex_Main
begin

section \<open>Python string operations used by the analyzers\<close>

text \<open>
  Source text is modelled as \<open>string\<close>, one \<open>char\<close> per character, for the code points
  below 256. White space is what \<^verbatim>\<open>str.isspace\<close> accepts there, which is what
  \<^verbatim>\<open>str.strip()\<close> and \<^verbatim>\<open>str.split()\<close> remove: tab, line feed, vertical tab, form feed,
  carriage return, the four separators 0x1C-0x1F, the blank, the next-line character
  U+0085 and the no-break space U+00A0.
\<close>

definition dq :: char where
  "dq = CHR 0x22"

definition sq :: char where
  "sq = CHR 0x27"

definition bslash :: char where
  "bslash = CHR 0x5C"

definition is_space :: "char \<Rightarrow> bool" where
  "is_space c = ((of_char c :: nat) \<in> set [9, 10, 11, 12, 13, 28, 29, 30, 31, 32, 133, 160])"

text \<open>\<^verbatim>\<open>s.strip()\<close>\<close>

definition strip :: "string \<Rightarrow> string" where
  "strip s = rev (dropWhile is_space (rev (dropWhile is_space s)))"

text \<open>\<^verbatim>\<open>s.startswith(p)\<close> and \<^verbatim>\<open>s.endswith(p)\<close>\<close>

definition startswith :: "string \<Rightarrow> string \<Rightarrow> bool" where
  "startswith s p = (take (length p) s = p)"

definition endswith :: "string \<Rightarrow> string \<Rightarrow> bool" where
  "endswith s p = (length p \<le> length s \<and> drop (length s - length p) s = p)"

text \<open>\<^verbatim>\<open>p in s\<close>: \<open>p\<close> occurs in \<open>s\<close> as a contiguous substring.\<close>

fun substr_in :: "string \<Rightarrow> string \<Rightarrow> bool" where
  "substr_in p [] = (p = [])"
| "substr_in p (c # cs) = (startswith (c # cs) p \<or> substr_in p cs)"

text \<open>
  \<^verbatim>\<open>s.count(p)\<close>: the number of non-overlapping occurrences of \<open>p\<close>, found from left to
  right. Every call in the source passes a non-empty literal; for the empty pattern Python
  answers \<open>len(s) + 1\<close>.
\<close>

function count_sub :: "string \<Rightarrow> string \<Rightarrow> nat" where
  "count_sub s p =
     (if p = [] then length s + 1
      else if s = [] then 0
      else if startswith s p then 1 + count_sub (drop (length p) s) p
      else count_sub (tl s) p)"
  by pat_completeness auto
termination
  by (relation "measure (\<lambda>(s, p). length s)") auto

declare count_sub.simps [simp del]

text \<open>
  \<^verbatim>\<open>s.split(sep)\<close> for a non-empty separator (Python raises ValueError on an empty one; every
  call in the source passes a non-empty literal, and the model then returns \<open>[s]\<close>).
\<close>

fun cons_first :: "char \<Rightarrow> string list \<Rightarrow> string list" where
  "cons_first c [] = [[c]]"
| "cons_first c (w # ws) = (c # w) # ws"

function split_on :: "string \<Rightarrow> string \<Rightarrow> string list" where
  "split_on s sep =
     (if s = [] then [[]]
      else if sep \<noteq> [] \<and> startswith s sep then [] # split_on (drop (length sep) s) sep
      else cons_first (hd s) (split_on (tl s) sep))"
  by pat_completeness auto
termination
  by (relation "measure (\<lambda>(s, sep). length s)") auto

declare split_on.simps [simp del]

text \<open>\<^verbatim>\<open>content.split('\n')\<close>\<close>

definition split_lines :: "string \<Rightarrow> string list" where
  "split_lines content = split_on content ''\<newline>''"

text \<open>
  \<^verbatim>\<open>s.lower()\<close> and \<^verbatim>\<open>s.upper()\<close>, on the letters A-Z and a-z and on the letters of
  the range 0xC0-0xFE (without the signs 0xD7 and 0xF7). Python's \<^verbatim>\<open>upper()\<close> takes the
  three characters 0xB5, 0xDF and 0xFF out of the code points below 256 (to U+039C, to
  \<^verbatim>\<open>SS\<close> and to U+0178); the model leaves them as they are, which makes no difference to
  the one use of \<^verbatim>\<open>upper()\<close> in the source, the search for \<^verbatim>\<open>TODO\<close>.
\<close>

definition lower_char :: "char \<Rightarrow> char" where
  "lower_char c =
     (let n = (of_char c :: nat) in
        if (65 \<le> n \<and> n \<le> 90) \<or> (192 \<le> n \<and> n \<le> 222 \<and> n \<noteq> 215) then char_of (n + 32)
        else c)"

definition upper_char :: "char \<Rightarrow> char" where
  "upper_char c =
     (let n = (of_char c :: nat) in
        if (97 \<le> n \<and> n \<le> 122) \<or> (224 \<le> n \<and> n \<le> 254 \<and> n \<noteq> 247) then char_of (n - 32)
        else c)"

definition lower :: "string \<Rightarrow> string" where
  "lower s = map lower_char s"

definition upper :: "string \<Rightarrow> string" where
  "upper s = map upper_char s"

text \<open>\<^verbatim>\<open>str(n)\<close> for a non-negative integer, as the f-strings of the source print it.\<close>

function str_nat :: "nat \<Rightarrow> string" where
  "str_nat n =
     (if n < 10 then [''0123456789'' ! n]
      else str_nat (n div 10) @ [''0123456789'' ! (n mod 10)])"
  by pat_completeness auto
termination
  by (relation "measure id") auto

declare str_nat.simps [simp del]


section \<open>ComplexityAnalyzer: the cyclomatic heuristic\<close>

text \<open>
  \<^verbatim>\<open>ComplexityAnalyzer._calculate_cyclomatic_complexity\<close>
  (quality-gates/complexity/analyze_complexity.py). The loop over the lines carries the
  running \<open>complexity\<close>; \<open>cyclomatic_line\<close> is one pass of the loop body.
\<close>

definition control_flow_keywords :: "string list" where
  "control_flow_keywords = [''if '', ''elif '', ''for '', ''while '', ''case '', ''&&'', ''||'']"

definition cyclomatic_line :: "int \<Rightarrow> string \<Rightarrow> int" where
  "cyclomatic_line complexity raw =
     (let line = strip raw;
          c1 = (if list_ex (\<lambda>keyword. substr_in keyword line) control_flow_keywords
                then complexity + 1 else complexity);
          c2 = (if substr_in ''except '' line then c1 + 1 else c1);
          n = count_sub line '' and '' + count_sub line '' or ''
      in if n > 0 then c2 + int n else c2)"

fun cyclomatic_loop :: "int \<Rightarrow> string list \<Rightarrow> int" where
  "cyclomatic_loop complexity [] = complexity"
| "cyclomatic_loop complexity (raw # rest) = cyclomatic_loop (cyclomatic_line complexity raw) rest"

definition calculate_cyclomatic_complexity :: "string list \<Rightarrow> int" where
  "calculate_cyclomatic_complexity lines = cyclomatic_loop 1 lines"

text \<open>
  The score as the specification words it: base 1, plus one for each occurrence of a
  branching keyword or operator, plus one for each exception-handler clause.
\<close>

definition spec_branch_tokens :: "string list" where
  "spec_branch_tokens =
     [''if '', ''elif '', ''for '', ''while '', ''case '', ''&&'', ''||'', '' and '', '' or '']"

definition spec_cyclomatic_complexity :: "string list \<Rightarrow> int" where
  "spec_cyclomatic_complexity lines =
     1 + (\<Sum>raw \<leftarrow> lines.
            (\<Sum>tok \<leftarrow> spec_branch_tokens. int (count_sub (strip raw) tok))
            + int (count_sub (strip raw) ''except ''))"

text \<open>What one line adds to the score in the code.\<close>

definition line_contribution :: "string \<Rightarrow> int" where
  "line_contribution raw =
     (let line = strip raw in
        (if list_ex (\<lambda>keyword. substr_in keyword line) control_flow_keywords then 1 else 0)
        + (if substr_in ''except '' line then 1 else 0)
        + int (count_sub line '' and '') + int (count_sub line '' or ''))"


section \<open>Shared data: errors, dictionaries, regular expressions\<close>

datatype py_error =
    KeyError string
  | TypeError string
  | ValueError string
  | OSError string

text \<open>\<^verbatim>\<open>d[k]\<close> on a dictionary with string keys: a missing key raises KeyError.\<close>

definition dict_get :: "(string \<rightharpoonup> 'a) \<Rightarrow> string \<Rightarrow> py_error + 'a" where
  "dict_get d k = (case d k of None \<Rightarrow> Inl (KeyError k) | Some v \<Rightarrow> Inr v)"

text \<open>
  The regular expressions of the source, as syntax trees: \<open>Space\<close> is \<^verbatim>\<open>\s\<close>, \<open>WordCh\<close> is
  \<^verbatim>\<open>\w\<close>, \<open>Digit\<close> is \<^verbatim>\<open>\d\<close>, \<open>Dot\<close> is \<^verbatim>\<open>.\<close>, \<open>OneOf\<close> and \<open>NoneOf\<close> are the
  character classes \<^verbatim>\<open>[...]\<close> and \<^verbatim>\<open>[^...]\<close> given by their ranges, \<open>LazyStar\<close> is \<^verbatim>\<open>*?\<close>,
  \<open>AtLeast n\<close> is \<^verbatim>\<open>{n,}\<close>, \<open>Group\<close> is a capturing group, \<open>Bol\<close> is \<^verbatim>\<open>^\<close> and \<open>WordB\<close>
  is \<^verbatim>\<open>\b\<close>. Non-capturing groups are plain nesting.
\<close>

datatype rx =
    Lit string
  | Dot
  | Space
  | WordCh
  | Digit
  | OneOf "(char \<times> char) list"
  | NoneOf "(char \<times> char) list"
  | Seq "rx list"
  | Alt "rx list"
  | Star rx
  | LazyStar rx
  | Plus rx
  | Opt rx
  | AtLeast nat rx
  | Group rx
  | Bol
  | WordB

text \<open>The character class \<^verbatim>\<open>["\']\<close> of the secret and SQL patterns.\<close>

definition quote_class :: "(char \<times> char) list" where
  "quote_class = [(dq, dq), (sq, sq)]"

text \<open>
  The matcher of Python's \<^verbatim>\<open>re\<close> module is a library outside the repository; the
  analyzers take it as a parameter. \<open>re_search p ic s\<close> is
  \<^verbatim>\<open>bool(re.search(p, s, re.IGNORECASE if ic else 0))\<close>.
\<close>

type_synonym re_search_fn = "rx \<Rightarrow> bool \<Rightarrow> string \<Rightarrow> bool"


section \<open>The project tree and the libraries the analyzers call\<close>

text \<open>
  What an analyzer sees of the file system below \<^verbatim>\<open>project_root\<close>: the entries in the
  order in which \<^verbatim>\<open>Path.glob("**/*")\<close> lists them, each with its path components
  relative to the root, whether \<^verbatim>\<open>is_file()\<close> holds, what \<^verbatim>\<open>open(...).read()\<close> gives
  (the text, or the message of the exception it raises), and what \<^verbatim>\<open>stat()\<close> gives
  (\<^verbatim>\<open>st_mode\<close> and \<^verbatim>\<open>st_size\<close>, or nothing when it raises). Every other glob is this
  listing filtered by the pattern.
\<close>

record fs_entry =
  fe_path :: "string list"
  fe_is_file :: bool
  fe_read :: "string + string"
  fe_stat :: "(nat \<times> nat) option"

record project =
  project_root :: string
  entries :: "fs_entry list"

fun join_path :: "string list \<Rightarrow> string" where
  "join_path [] = []"
| "join_path [c] = c"
| "join_path (c # cs) = c @ ''/'' @ join_path cs"

text \<open>\<^verbatim>\<open>str(path)\<close> of a listed entry, for a root that is a normalised absolute path
  other than \<^verbatim>\<open>/\<close>.\<close>

definition path_str :: "project \<Rightarrow> fs_entry \<Rightarrow> string" where
  "path_str proj e = project_root proj @ ''/'' @ join_path (fe_path e)"

definition entry_name :: "fs_entry \<Rightarrow> string" where
  "entry_name e = (case fe_path e of [] \<Rightarrow> [] | cs \<Rightarrow> last cs)"

text \<open>\<^verbatim>\<open>project_root.glob("**/*" + suffix)\<close>, \<^verbatim>\<open>glob("**/" + prefix + "*")\<close>,
  \<^verbatim>\<open>glob(prefix + "*")\<close> (the root directory only) and \<^verbatim>\<open>glob("**/*")\<close>.\<close>

definition glob_suffix :: "project \<Rightarrow> string \<Rightarrow> fs_entry list" where
  "glob_suffix proj suffix = filter (\<lambda>e. endswith (entry_name e) suffix) (entries proj)"

definition glob_prefix :: "project \<Rightarrow> string \<Rightarrow> fs_entry list" where
  "glob_prefix proj prefix = filter (\<lambda>e. startswith (entry_name e) prefix) (entries proj)"

definition glob_root_prefix :: "project \<Rightarrow> string \<Rightarrow> fs_entry list" where
  "glob_root_prefix proj prefix =
     filter (\<lambda>e. length (fe_path e) = 1 \<and> startswith (entry_name e) prefix) (entries proj)"

definition glob_all :: "project \<Rightarrow> fs_entry list" where
  "glob_all proj = entries proj"

text \<open>
  The part of a Python syntax tree the analyzers look at. \<open>FunctionDef name lineno
  end_lineno nargs doc body\<close>: \<open>end_lineno\<close> is \<open>None\<close> when the node has no such
  attribute, \<open>nargs\<close> is \<^verbatim>\<open>len(node.args.args)\<close>, \<open>doc\<close> tells whether
  \<^verbatim>\<open>ast.get_docstring(node)\<close> is truthy, \<open>body\<close> is the statement list. \<open>ClassDef name
  lineno doc body\<close>. \<open>If lineno body orelse\<close>. \<open>Other children\<close> is any other node (the
  module itself, a loop, a handler, a simple statement) with its child nodes in field
  order. Expression nodes hold none of the three statement kinds and are left out.
\<close>

datatype py_ast =
    FunctionDef string nat "nat option" nat bool "py_ast list"
  | ClassDef string nat bool "py_ast list"
  | If nat "py_ast list" "py_ast list"
  | Other "py_ast list"

text \<open>What \<^verbatim>\<open>ast.parse(content)\<close> does: a tree, a SyntaxError with its \<^verbatim>\<open>lineno\<close> and
  \<^verbatim>\<open>msg\<close>, or another exception with its message.\<close>

datatype parse_result =
    Parsed py_ast
  | SyntaxError "nat option" string
  | ParseFailure string

text \<open>
  The libraries outside the repository, as parameters of the model: \<open>re_search p ic s\<close>
  is \<^verbatim>\<open>bool(re.search(p, s, re.IGNORECASE if ic else 0))\<close>; \<open>re_match p s\<close> is
  \<^verbatim>\<open>group(1)\<close> of \<^verbatim>\<open>re.match(p, s)\<close>, or \<open>None\<close> without a match; \<open>re_findall\<close> is
  \<^verbatim>\<open>re.findall\<close>; \<open>ast_parse\<close> is \<^verbatim>\<open>ast.parse\<close>.
\<close>

record pylib =
  re_search :: "rx \<Rightarrow> bool \<Rightarrow> string \<Rightarrow> bool"
  re_match :: "rx \<Rightarrow> string \<Rightarrow> string option"
  re_findall :: "rx \<Rightarrow> string \<Rightarrow> string list"
  ast_parse :: "string \<Rightarrow> parse_result"

text \<open>\<^verbatim>\<open>xs[i:j]\<close> for integer bounds: negative bounds count from the end, and both are
  clamped to the list.\<close>

definition py_slice :: "'a list \<Rightarrow> int \<Rightarrow> int \<Rightarrow> 'a list" where
  "py_slice xs i j =
     (let n = int (length xs);
          lo = (if i < 0 then max (n + i) 0 else min i n);
          hi = (if j < 0 then max (n + j) 0 else min j n)
      in take (nat (hi - lo)) (drop (nat lo) xs))"


section \<open>ComplexityAnalyzer\<close>

text \<open>\<^verbatim>\<open>self.thresholds\<close> of \<^verbatim>\<open>ComplexityAnalyzer.__init__\<close>.\<close>

record thresholds =
  cyclomatic :: int
  lines_per_function :: nat
  lines_per_file :: nat
  nesting_depth :: nat

definition analyzer_thresholds :: thresholds where
  "analyzer_thresholds =
     \<lparr>cyclomatic = 10, lines_per_function = 50, lines_per_file = 300, nesting_depth = 4\<rparr>"

text \<open>
  The dictionaries of a per-file result. A Python function entry has all of \<^verbatim>\<open>name\<close>,
  \<^verbatim>\<open>line\<close>, \<^verbatim>\<open>lines\<close>, \<^verbatim>\<open>complexity\<close>, \<^verbatim>\<open>args\<close>; a JavaScript one has no \<^verbatim>\<open>args\<close>, a
  shell one neither \<^verbatim>\<open>args\<close> nor \<^verbatim>\<open>complexity\<close>.
\<close>

record function_metrics =
  fm_name :: string
  fm_line :: nat
  fm_lines :: nat
  fm_complexity :: "int option"
  fm_args :: "nat option"

record class_metrics =
  cm_name :: string
  cm_line :: nat
  cm_methods :: nat

record file_metrics =
  fi_file :: string
  fi_total_lines :: nat
  fi_functions :: "function_metrics list"
  fi_classes :: "class_metrics list"

record complex_function =
  cf_file :: string
  cf_function :: string
  cf_complexity :: int
  cf_line :: nat

record long_function =
  lf_file :: string
  lf_function :: string
  lf_lines :: nat
  lf_line :: nat

record long_file =
  lg_file :: string
  lg_lines :: nat

record language_report =
  lr_file_count :: nat
  lr_files :: "file_metrics list"
  lr_complex_functions :: "complex_function list"
  lr_long_functions :: "long_function list"
  lr_long_files :: "long_file list"

text \<open>\<^verbatim>\<open>ast.walk\<close>: breadth first, from a queue of nodes still to visit.\<close>

fun child_nodes :: "py_ast \<Rightarrow> py_ast list" where
  "child_nodes (FunctionDef name lineno end_lineno nargs doc body) = body"
| "child_nodes (ClassDef name lineno doc body) = body"
| "child_nodes (If lineno body orelse) = body @ orelse"
| "child_nodes (Other children) = children"

fun node_count :: "py_ast \<Rightarrow> nat" where
  "node_count (FunctionDef name lineno end_lineno nargs doc body) = Suc (sum_list (map node_count body))"
| "node_count (ClassDef name lineno doc body) = Suc (sum_list (map node_count body))"
| "node_count (If lineno body orelse) =
     Suc (sum_list (map node_count body) + sum_list (map node_count orelse))"
| "node_count (Other children) = Suc (sum_list (map node_count children))"

function walk_queue :: "py_ast list \<Rightarrow> py_ast list" where
  "walk_queue [] = []"
| "walk_queue (n # todo) = n # walk_queue (todo @ child_nodes n)"
  by pat_completeness auto
termination
proof (relation "measure (\<lambda>q. sum_list (map node_count q))")
  show "wf (measure (\<lambda>q. sum_list (map node_count q)))"
    by simp
next
  fix n :: py_ast and todo :: "py_ast list"
  have "sum_list (map node_count (child_nodes n)) < node_count n"
    by (cases n) simp_all
  then show "(todo @ child_nodes n, n # todo) \<in> measure (\<lambda>q. sum_list (map node_count q))"
    by simp
qed

definition ast_walk :: "py_ast \<Rightarrow> py_ast list" where
  "ast_walk tree = walk_queue [tree]"

text \<open>\<^verbatim>\<open>ComplexityAnalyzer._analyze_python_function\<close>, for a FunctionDef node given by
  its fields.\<close>

definition analyze_python_function :: "string \<Rightarrow> nat \<Rightarrow> nat option \<Rightarrow> nat \<Rightarrow> string list \<Rightarrow> function_metrics" where
  "analyze_python_function name lineno end_lineno nargs lines =
     (let start_line = int lineno - 1;
          end_line = (case end_lineno of None \<Rightarrow> start_line + 10 | Some e \<Rightarrow> int e) - 1;
          function_lines = py_slice lines start_line (end_line + 1);
          complexity = calculate_cyclomatic_complexity function_lines
      in \<lparr>fm_name = name, fm_line = lineno, fm_lines = length function_lines,
          fm_complexity = Some complexity, fm_args = Some nargs\<rparr>)"

fun is_function_def :: "py_ast \<Rightarrow> bool" where
  "is_function_def (FunctionDef name lineno end_lineno nargs doc body) = True"
| "is_function_def n = False"

text \<open>The loop over \<^verbatim>\<open>ast.walk(tree)\<close> in \<^verbatim>\<open>_analyze_python_file\<close>: function entries
  and class entries, each in walk order.\<close>

fun walk_functions :: "string list \<Rightarrow> py_ast list \<Rightarrow> function_metrics list" where
  "walk_functions lines [] = []"
| "walk_functions lines (FunctionDef name lineno end_lineno nargs doc body # rest) =
     analyze_python_function name lineno end_lineno nargs lines # walk_functions lines rest"
| "walk_functions lines (n # rest) = walk_functions lines rest"

fun walk_classes :: "py_ast list \<Rightarrow> class_metrics list" where
  "walk_classes [] = []"
| "walk_classes (ClassDef name lineno doc body # rest) =
     \<lparr>cm_name = name, cm_line = lineno, cm_methods = length (filter is_function_def body)\<rparr>
       # walk_classes rest"
| "walk_classes (n # rest) = walk_classes rest"

text \<open>\<^verbatim>\<open>ComplexityAnalyzer._analyze_python_file\<close>: \<open>Inl\<close> is the message of the
  exception that leaves the function (from \<^verbatim>\<open>open\<close>, \<^verbatim>\<open>read\<close> or \<^verbatim>\<open>ast.parse\<close>).\<close>

definition analyze_python_file :: "pylib \<Rightarrow> project \<Rightarrow> fs_entry \<Rightarrow> string + file_metrics" where
  "analyze_python_file lib proj file_path =
     (case fe_read file_path of
        Inl e \<Rightarrow> Inl e
      | Inr content \<Rightarrow>
          (let lines = split_lines content in
             case ast_parse lib content of
               SyntaxError lineno msg \<Rightarrow> Inl msg
             | ParseFailure e \<Rightarrow> Inl e
             | Parsed tree \<Rightarrow>
                 Inr \<lparr>fi_file = path_str proj file_path, fi_total_lines = length lines,
                      fi_functions = walk_functions lines (ast_walk tree),
                      fi_classes = walk_classes (ast_walk tree)\<rparr>))"

definition empty_report :: "nat \<Rightarrow> language_report" where
  "empty_report n =
     \<lparr>lr_file_count = n, lr_files = [], lr_complex_functions = [], lr_long_functions = [],
      lr_long_files = []\<rparr>"

text \<open>\<^verbatim>\<open>func.get("complexity", 0)\<close>\<close>

definition get_complexity :: "function_metrics \<Rightarrow> int" where
  "get_complexity func = (case fm_complexity func of None \<Rightarrow> 0 | Some c \<Rightarrow> c)"

definition complex_entries :: "thresholds \<Rightarrow> string \<Rightarrow> function_metrics list \<Rightarrow> complex_function list" where
  "complex_entries th file funcs =
     map (\<lambda>func. \<lparr>cf_file = file, cf_function = fm_name func,
                   cf_complexity = get_complexity func, cf_line = fm_line func\<rparr>)
       (filter (\<lambda>func. get_complexity func > cyclomatic th) funcs)"

definition long_entries :: "thresholds \<Rightarrow> string \<Rightarrow> function_metrics list \<Rightarrow> long_function list" where
  "long_entries th file funcs =
     map (\<lambda>func. \<lparr>lf_file = file, lf_function = fm_name func, lf_lines = fm_lines func,
                   lf_line = fm_line func\<rparr>)
       (filter (\<lambda>func. fm_lines func > lines_per_function th) funcs)"

definition long_file_entries :: "thresholds \<Rightarrow> string \<Rightarrow> file_metrics \<Rightarrow> long_file list" where
  "long_file_entries th file file_result =
     (if fi_total_lines file_result > lines_per_file th
      then [\<lparr>lg_file = file, lg_lines = fi_total_lines file_result\<rparr>] else [])"

text \<open>
  One pass of the \<^verbatim>\<open>for py_file in python_files\<close> loop of
  \<^verbatim>\<open>ComplexityAnalyzer.analyze_python_files\<close>: the \<^verbatim>\<open>except Exception\<close> branch prints a
  warning and leaves \<open>results\<close> as it is (console output is not part of the model).
\<close>

definition python_file_step :: "pylib \<Rightarrow> thresholds \<Rightarrow> project \<Rightarrow> language_report \<Rightarrow> fs_entry \<Rightarrow> language_report" where
  "python_file_step lib th proj results py_file =
     (case analyze_python_file lib proj py_file of
        Inl e \<Rightarrow> results
      | Inr file_result \<Rightarrow>
          results
            \<lparr>lr_files := lr_files results @ [file_result],
             lr_complex_functions := lr_complex_functions results
                @ complex_entries th (path_str proj py_file) (fi_functions file_result),
             lr_long_functions := lr_long_functions results
                @ long_entries th (path_str proj py_file) (fi_functions file_result),
             lr_long_files := lr_long_files results
                @ long_file_entries th (path_str proj py_file) file_result\<rparr>)"

definition analyze_python_files :: "pylib \<Rightarrow> thresholds \<Rightarrow> project \<Rightarrow> language_report option" where
  "analyze_python_files lib th proj =
     (let python_files = glob_suffix proj ''.py'' in
        if python_files = [] then None
        else Some (foldl (python_file_step lib th proj)
                     (empty_report (length python_files)) python_files))"


text \<open>\<^verbatim>\<open>^(?:function\s+)?(\w+)\s*\(\)\s*\{\<close>\<close>

definition shell_function_rx :: rx where
  "shell_function_rx =
     Seq [Bol, Opt (Seq [Lit ''function'', Plus Space]), Group (Plus WordCh), Star Space,
          Lit ''()'', Star Space, Lit ''{'']"

text \<open>
  \<^verbatim>\<open>(?:function\s+|(?:const|let|var)\s+\w+\s*=\s*(?:\([^)]*\)\s*=>)?\s*)(\w+)\s*\([^)]*\)\s*\{\<close>
\<close>

definition js_function_rx :: rx where
  "js_function_rx =
     Seq [Alt [Seq [Lit ''function'', Plus Space],
               Seq [Alt [Lit ''const'', Lit ''let'', Lit ''var''], Plus Space, Plus WordCh,
                    Star Space, Lit ''='', Star Space,
                    Opt (Seq [Lit ''('', Star (NoneOf [(CHR '')'', CHR '')'')]), Lit '')'',
                              Star Space, Lit ''=>'']),
                    Star Space]],
          Group (Plus WordCh), Star Space, Lit ''('', Star (NoneOf [(CHR '')'', CHR '')'')]),
          Lit '')'', Star Space, Lit ''{'']"

text \<open>\<^verbatim>\<open>ComplexityAnalyzer._find_shell_function_end\<close>: the loop over
  \<^verbatim>\<open>range(start_idx, len(lines))\<close>, at index \<open>i\<close> with the lines from \<open>i\<close> on.\<close>

fun shell_end_loop :: "int \<Rightarrow> nat \<Rightarrow> string list \<Rightarrow> nat option" where
  "shell_end_loop brace_count i [] = None"
| "shell_end_loop brace_count i (raw # rest) =
     (let line = strip raw;
          brace_count' = brace_count + int (count_sub line ''{'') - int (count_sub line ''}'')
      in if brace_count' = 0 \<and> substr_in ''}'' line then Some i
         else shell_end_loop brace_count' (Suc i) rest)"

definition find_shell_function_end :: "string list \<Rightarrow> nat \<Rightarrow> nat option" where
  "find_shell_function_end lines start_idx = shell_end_loop 0 start_idx (drop start_idx lines)"

text \<open>The body of the loop of \<^verbatim>\<open>_analyze_shell_file\<close> for line \<open>i\<close>;
  \<^verbatim>\<open>end_line - i if end_line else 10\<close> takes 10 for \<open>None\<close> and for index 0 alike.\<close>

definition shell_function_at :: "pylib \<Rightarrow> string list \<Rightarrow> nat \<times> string \<Rightarrow> function_metrics list" where
  "shell_function_at lib lines il =
     (case il of (i, line) \<Rightarrow>
        (case re_match lib shell_function_rx (strip line) of
           None \<Rightarrow> []
         | Some func_name \<Rightarrow>
             (let end_line = find_shell_function_end lines i;
                  func_lines = (case end_line of None \<Rightarrow> 10
                                | Some e \<Rightarrow> if e = 0 then 10 else e - i)
              in [\<lparr>fm_name = func_name, fm_line = i + 1, fm_lines = func_lines,
                   fm_complexity = None, fm_args = None\<rparr>])))"

definition analyze_shell_file :: "pylib \<Rightarrow> project \<Rightarrow> fs_entry \<Rightarrow> string + file_metrics" where
  "analyze_shell_file lib proj file_path =
     (case fe_read file_path of
        Inl e \<Rightarrow> Inl e
      | Inr content \<Rightarrow>
          (let lines = split_lines content in
             Inr \<lparr>fi_file = path_str proj file_path, fi_total_lines = length lines,
                  fi_functions = concat (map (shell_function_at lib lines) (enumerate 0 lines)),
                  fi_classes = []\<rparr>))"

definition shell_file_step :: "pylib \<Rightarrow> thresholds \<Rightarrow> project \<Rightarrow> language_report \<Rightarrow> fs_entry \<Rightarrow> language_report" where
  "shell_file_step lib th proj results sh_file =
     (case analyze_shell_file lib proj sh_file of
        Inl e \<Rightarrow> results
      | Inr file_result \<Rightarrow>
          results
            \<lparr>lr_files := lr_files results @ [file_result],
             lr_long_files := lr_long_files results
                @ long_file_entries th (path_str proj sh_file) file_result,
             lr_long_functions := lr_long_functions results
                @ long_entries th (path_str proj sh_file) (fi_functions file_result)\<rparr>)"


text \<open>\<^verbatim>\<open>ComplexityAnalyzer._estimate_js_function_length\<close>: the loop over
  \<^verbatim>\<open>range(start_idx, min(start_idx + 100, len(lines)))\<close>.\<close>

fun js_length_loop :: "int \<Rightarrow> nat \<Rightarrow> string list \<Rightarrow> nat option" where
  "js_length_loop brace_count k [] = None"
| "js_length_loop brace_count k (raw # rest) =
     (let line = strip raw;
          brace_count' = brace_count + int (count_sub line ''{'') - int (count_sub line ''}'')
      in if brace_count' = 0 \<and> substr_in ''}'' line then Some (k + 1)
         else js_length_loop brace_count' (Suc k) rest)"

definition estimate_js_function_length :: "string list \<Rightarrow> nat \<Rightarrow> nat" where
  "estimate_js_function_length lines start_idx =
     (case js_length_loop 0 0 (take 100 (drop start_idx lines)) of
        Some n \<Rightarrow> n
      | None \<Rightarrow> min 50 (length lines - start_idx))"

definition js_keywords :: "string list" where
  "js_keywords = [''if '', ''for '', ''while '', ''switch '', ''&&'', ''||'', ''?'']"

definition js_line :: "int \<Rightarrow> string \<Rightarrow> int" where
  "js_line complexity raw =
     (let line = strip raw;
          c1 = (if list_ex (\<lambda>keyword. substr_in keyword line) js_keywords
                then complexity + 1 else complexity)
      in if substr_in ''catch '' line then c1 + 1 else c1)"

definition calculate_js_complexity :: "string list \<Rightarrow> int" where
  "calculate_js_complexity lines = foldl js_line 1 lines"

text \<open>The body of the loop of \<^verbatim>\<open>_analyze_javascript_file\<close> for line \<open>i\<close>.\<close>

definition js_function_at :: "pylib \<Rightarrow> string list \<Rightarrow> nat \<times> string \<Rightarrow> function_metrics list" where
  "js_function_at lib lines il =
     (case il of (i, line) \<Rightarrow>
        (case re_match lib js_function_rx (strip line) of
           None \<Rightarrow> []
         | Some g \<Rightarrow>
             (let func_name = (if g \<noteq> [] then g else ''anonymous'');
                  func_lines = estimate_js_function_length lines i;
                  complexity = calculate_js_complexity (take func_lines (drop i lines))
              in [\<lparr>fm_name = func_name, fm_line = i + 1, fm_lines = func_lines,
                   fm_complexity = Some complexity, fm_args = None\<rparr>])))"

definition analyze_javascript_file :: "pylib \<Rightarrow> project \<Rightarrow> fs_entry \<Rightarrow> string + file_metrics" where
  "analyze_javascript_file lib proj file_path =
     (case fe_read file_path of
        Inl e \<Rightarrow> Inl e
      | Inr content \<Rightarrow>
          (let lines = split_lines content in
             Inr \<lparr>fi_file = path_str proj file_path, fi_total_lines = length lines,
                  fi_functions = concat (map (js_function_at lib lines) (enumerate 0 lines)),
                  fi_classes = []\<rparr>))"

definition js_file_step :: "pylib \<Rightarrow> thresholds \<Rightarrow> project \<Rightarrow> language_report \<Rightarrow> fs_entry \<Rightarrow> language_report" where
  "js_file_step lib th proj results js_file =
     (case analyze_javascript_file lib proj js_file of
        Inl e \<Rightarrow> results
      | Inr file_result \<Rightarrow>
          results
            \<lparr>lr_files := lr_files results @ [file_result],
             lr_complex_functions := lr_complex_functions results
                @ complex_entries th (path_str proj js_file) (fi_functions file_result),
             lr_long_functions := lr_long_functions results
                @ long_entries th (path_str proj js_file) (fi_functions file_result),
             lr_long_files := lr_long_files results
                @ long_file_entries th (path_str proj js_file) file_result\<rparr>)"













section \<open>SecurityScanner: the per-line checks\<close>

text \<open>
  A vulnerability entry is the dictionary the scanner builds, with the keys
  \<^verbatim>\<open>file\<close>, \<^verbatim>\<open>line\<close>, \<^verbatim>\<open>severity\<close>, \<^verbatim>\<open>issue\<close>, \<^verbatim>\<open>code\<close> (absent from the entry for
  an unreadable file) and \<^verbatim>\<open>recommendation\<close>.
\<close>

record vuln =
  vuln_file :: string
  vuln_line :: nat
  vuln_severity :: string
  vuln_issue :: string
  vuln_code :: "string option"
  vuln_recommendation :: string

text \<open>
  \<^verbatim>\<open>dangerous_functions\<close> of \<^verbatim>\<open>SecurityScanner._check_python_vulnerability\<close>, in the
  order of the dictionary literal (which is the order Python iterates it in): pattern,
  severity, issue, recommendation.
\<close>

definition dangerous_functions :: "(string \<times> string \<times> string \<times> string) list" where
  "dangerous_functions =
     [(''eval('', ''critical'', ''Use of eval() function'',
         ''Avoid eval() - use ast.literal_eval() for safe evaluation''),
      (''exec('', ''critical'', ''Use of exec() function'',
         ''Avoid exec() - find alternative implementation''),
      (''os.system('', ''high'', ''Use of os.system()'', ''Use subprocess.run() instead''),
      (''subprocess.call('', ''medium'', ''Use of subprocess.call()'',
         ''Use subprocess.run() for better security''),
      (''pickle.load('', ''high'', ''Use of pickle.load()'',
         ''Avoid pickle for untrusted data - use json instead''),
      (''yaml.load('', ''high'', ''Unsafe YAML loading'', ''Use yaml.safe_load() instead''),
      (''input('', ''medium'', ''Use of input() in Python 2 style'',
         ''Use proper input validation'')]"

text \<open>\<^verbatim>\<open>keyword\s*=\s*["\'][^"\']*["\']\<close>\<close>

definition quoted_assignment :: "string \<Rightarrow> rx" where
  "quoted_assignment keyword =
     Seq [Lit keyword, Star Space, Lit ''='', Star Space,
          OneOf quote_class, Star (NoneOf quote_class), OneOf quote_class]"

definition secret_patterns :: "rx list" where
  "secret_patterns =
     [quoted_assignment ''password'', quoted_assignment ''secret'',
      quoted_assignment ''key'', quoted_assignment ''token'']"

text \<open>
  \<^verbatim>\<open>execute\s*\(\s*["\'].*?%.*["\']\<close>, \<^verbatim>\<open>cursor\.execute\s*\(\s*f["\']\<close> and
  \<^verbatim>\<open>["\'].*?\s*\+.*?\s*["\'].*?execute\<close>
\<close>

definition sql_patterns :: "rx list" where
  "sql_patterns =
     [Seq [Lit ''execute'', Star Space, Lit ''('', Star Space, OneOf quote_class,
           LazyStar Dot, Lit ''%'', Star Dot, OneOf quote_class],
      Seq [Lit ''cursor.execute'', Star Space, Lit ''('', Star Space, Lit ''f'',
           OneOf quote_class],
      Seq [OneOf quote_class, LazyStar Dot, Star Space, Lit ''+'', LazyStar Dot, Star Space,
           OneOf quote_class, LazyStar Dot, Lit ''execute'']]"

definition dangerous_entry :: "string \<Rightarrow> nat \<Rightarrow> string \<Rightarrow> string \<times> string \<times> string \<times> string \<Rightarrow> vuln" where
  "dangerous_entry line line_num file_path info =
     (case info of (pattern, severity, issue, recommendation) \<Rightarrow>
        \<lparr>vuln_file = file_path, vuln_line = line_num, vuln_severity = severity,
         vuln_issue = issue, vuln_code = Some line, vuln_recommendation = recommendation\<rparr>)"

definition secret_entry :: "string \<Rightarrow> nat \<Rightarrow> string \<Rightarrow> vuln" where
  "secret_entry line line_num file_path =
     \<lparr>vuln_file = file_path, vuln_line = line_num, vuln_severity = ''high'',
      vuln_issue = ''Potential hardcoded secret'', vuln_code = Some line,
      vuln_recommendation = ''Move secrets to environment variables or secure config files''\<rparr>"

definition sql_entry :: "string \<Rightarrow> nat \<Rightarrow> string \<Rightarrow> vuln" where
  "sql_entry line line_num file_path =
     \<lparr>vuln_file = file_path, vuln_line = line_num, vuln_severity = ''high'',
      vuln_issue = ''Potential SQL injection vulnerability'', vuln_code = Some line,
      vuln_recommendation = ''Use parameterized queries or ORM instead of string formatting''\<rparr>"

definition traversal_entry :: "string \<Rightarrow> nat \<Rightarrow> string \<Rightarrow> vuln" where
  "traversal_entry line line_num file_path =
     \<lparr>vuln_file = file_path, vuln_line = line_num, vuln_severity = ''medium'',
      vuln_issue = ''Potential path traversal vulnerability'', vuln_code = Some line,
      vuln_recommendation = ''Validate and sanitize file paths''\<rparr>"

text \<open>\<^verbatim>\<open>"../" in line or "..\\" in line\<close>\<close>

definition has_path_traversal :: "string \<Rightarrow> bool" where
  "has_path_traversal line = (substr_in ''../'' line \<or> substr_in [CHR ''.'', CHR ''.'', bslash] line)"

text \<open>
  \<^verbatim>\<open>SecurityScanner._check_python_vulnerability\<close>: each \<^verbatim>\<open>for\<close> loop returns from the
  function at its first hit, which is \<open>find\<close>; the result is Python's \<^verbatim>\<open>Optional\<close>.
\<close>

definition check_python_vulnerability :: "re_search_fn \<Rightarrow> string \<Rightarrow> nat \<Rightarrow> string \<Rightarrow> vuln option" where
  "check_python_vulnerability search line line_num file_path =
     (case find (\<lambda>(pattern, vuln_info). substr_in pattern line) dangerous_functions of
        Some info \<Rightarrow> Some (dangerous_entry line line_num file_path info)
      | None \<Rightarrow>
          (case find (\<lambda>pattern. search pattern True line) secret_patterns of
             Some pattern \<Rightarrow> Some (secret_entry line line_num file_path)
           | None \<Rightarrow>
               (case find (\<lambda>pattern. search pattern False line) sql_patterns of
                  Some pattern \<Rightarrow> Some (sql_entry line line_num file_path)
                | None \<Rightarrow>
                    (if has_path_traversal line
                     then Some (traversal_entry line line_num file_path)
                     else None))))"

text \<open>
  The entries a line would get if every matching pattern reported (no short-circuit), in
  the order of the checks: one per matching dangerous call, one per matching secret
  expression, one per matching SQL expression, one for a path traversal.
\<close>

definition python_line_matches :: "re_search_fn \<Rightarrow> string \<Rightarrow> nat \<Rightarrow> string \<Rightarrow> vuln list" where
  "python_line_matches search line line_num file_path =
     map (dangerous_entry line line_num file_path)
       (filter (\<lambda>(pattern, vuln_info). substr_in pattern line) dangerous_functions)
     @ map (\<lambda>pattern. secret_entry line line_num file_path)
         (filter (\<lambda>pattern. search pattern True line) secret_patterns)
     @ map (\<lambda>pattern. sql_entry line line_num file_path)
         (filter (\<lambda>pattern. search pattern False line) sql_patterns)
     @ (if has_path_traversal line then [traversal_entry line line_num file_path] else [])"

definition first_of :: "'a list \<Rightarrow> 'a option" where
  "first_of xs = (case xs of [] \<Rightarrow> None | x # rest \<Rightarrow> Some x)"


section \<open>QualityGateManager: the overall status\<close>

text \<open>
  \<^verbatim>\<open>QualityGateManager._calculate_overall_status\<close>
  (quality-gates/run_quality_gates.py). \<open>gate_results\<close> lists the dictionary's items in
  insertion order; of each gate's result only its \<^verbatim>\<open>status\<close> entry is read, so a result
  is given by that entry (\<open>None\<close> when the key is absent, where
  \<^verbatim>\<open>result.get("status", "unknown")\<close> answers the default).
\<close>

definition calculate_overall_status :: "(string \<times> string option) list \<Rightarrow> string" where
  "calculate_overall_status gate_results =
     (let statuses = map (\<lambda>(gate_name, result).
                            case result of None \<Rightarrow> ''unknown'' | Some status \<Rightarrow> status)
                         gate_results
      in if ''failed'' \<in> set statuses then ''failed''
         else if ''warning'' \<in> set statuses then ''warning''
         else if list_all (\<lambda>status. status = ''passed'') statuses then ''passed''
         else ''unknown'')"

text \<open>The four gates of \<^verbatim>\<open>run_all_quality_gates\<close> with given statuses.\<close>

definition four_gates :: "string \<Rightarrow> string \<Rightarrow> string \<Rightarrow> string \<Rightarrow> (string \<times> string option) list" where
  "four_gates linting complexity security review =
     [(''linting'', Some linting), (''complexity'', Some complexity),
      (''security'', Some security), (''review'', Some review)]"

definition gate_status_values :: "string list" where
  "gate_status_values = [''passed'', ''warning'', ''failed'', ''unknown'']"


section \<open>Sizing flags of a language report\<close>

text \<open>
  A language report is consistent when its three flag lists are exactly what the
  threshold comparisons give for the per-file results it holds, file by file.
\<close>

definition report_consistent :: "thresholds \<Rightarrow> language_report \<Rightarrow> bool" where
  "report_consistent th r =
     (lr_complex_functions r
        = concat (map (\<lambda>fr. complex_entries th (fi_file fr) (fi_functions fr)) (lr_files r))
      \<and> lr_long_functions r
        = concat (map (\<lambda>fr. long_entries th (fi_file fr) (fi_functions fr)) (lr_files r))
      \<and> lr_long_files r
        = concat (map (\<lambda>fr. long_file_entries th (fi_file fr) fr) (lr_files r)))"

text \<open>
  An example project: one Python file of two one-line functions, \<open>f\<close> with ten
  occurrences of \<^verbatim>\<open> and \<close> (score 11) and \<open>g\<close> with nine of \<^verbatim>\<open> or \<close> (score 10,
  the threshold). The example library parses this file into its two function nodes and
  answers that no regular expression matches.
\<close>

definition example_f_line :: string where
  "example_f_line = ''def f(a): return a and a and a and a and a and a and a and a and a and a and a''"

definition example_g_line :: string where
  "example_g_line = ''def g(a): return a or a or a or a or a or a or a or a or a or a''"

definition example_source :: string where
  "example_source = example_f_line @ ''\<newline>'' @ example_g_line"

definition example_tree :: py_ast where
  "example_tree =
     Other [FunctionDef ''f'' 1 (Some 1) 1 False [Other []],
            FunctionDef ''g'' 2 (Some 2) 1 False [Other []]]"

definition example_lib :: pylib where
  "example_lib =
     \<lparr>re_search = (\<lambda>p ic s. False), re_match = (\<lambda>p s. None), re_findall = (\<lambda>p s. []),
      ast_parse = (\<lambda>content. if content = example_source then Parsed example_tree
                               else SyntaxError (Some 1) ''invalid syntax'')\<rparr>"

definition example_entry :: fs_entry where
  "example_entry = \<lparr>fe_path = [''app.py''], fe_is_file = True, fe_read = Inr example_source,
                  fe_stat = Some (33188, 142)\<rparr>"

definition example_project :: project where
  "example_project = \<lparr>project_root = ''/repo'', entries = [example_entry]\<rparr>"

definition example_file_result :: file_metrics where
  "example_file_result =
     \<lparr>fi_file = ''/repo/app.py'', fi_total_lines = 2,
      fi_functions =
        [\<lparr>fm_name = ''f'', fm_line = 1, fm_lines = 1, fm_complexity = Some 11, fm_args = Some 1\<rparr>,
         \<lparr>fm_name = ''g'', fm_line = 2, fm_lines = 1, fm_complexity = Some 10, fm_args = Some 1\<rparr>],
      fi_classes = []\<rparr>"

definition example_report :: language_report where
  "example_report =
     \<lparr>lr_file_count = 1, lr_files = [example_file_result],
      lr_complex_functions =
        [\<lparr>cf_file = ''/repo/app.py'', cf_function = ''f'', cf_complexity = 11, cf_line = 1\<rparr>],
      lr_long_functions = [], lr_long_files = []\<rparr>"


section \<open>SecurityScanner: files, languages and the report\<close>

text \<open>Sequencing of calls that may raise: the first exception leaves the function.\<close>

definition bind_err :: "'e + 'a \<Rightarrow> ('a \<Rightarrow> 'e + 'b) \<Rightarrow> 'e + 'b" where
  "bind_err m f = (case m of Inl e \<Rightarrow> Inl e | Inr x \<Rightarrow> f x)"

text \<open>\<^verbatim>\<open>enumerate(lines, 1)\<close> with \<^verbatim>\<open>line.strip()\<close> and an optional entry per line.\<close>

definition scan_lines :: "(string \<Rightarrow> nat \<Rightarrow> 'a option) \<Rightarrow> string list \<Rightarrow> 'a list" where
  "scan_lines check lines =
     List.map_filter (\<lambda>(i, line). check (strip line) i) (enumerate 1 lines)"

text \<open>\<^verbatim>\<open>SecurityScanner._scan_python_file\<close>: the \<^verbatim>\<open>except Exception\<close> branch is reached
  from \<^verbatim>\<open>open\<close> and \<^verbatim>\<open>read\<close> only, before any entry is appended.\<close>

definition scan_python_file :: "pylib \<Rightarrow> project \<Rightarrow> fs_entry \<Rightarrow> vuln list" where
  "scan_python_file lib proj file_path =
     (case fe_read file_path of
        Inl e \<Rightarrow>
          [\<lparr>vuln_file = path_str proj file_path, vuln_line = 0, vuln_severity = ''info'',
            vuln_issue = ''Could not scan file: '' @ e, vuln_code = None,
            vuln_recommendation = ''Check file permissions and encoding''\<rparr>]
      | Inr content \<Rightarrow>
          scan_lines (\<lambda>line_clean i.
              check_python_vulnerability (re_search lib) line_clean i (path_str proj file_path))
            (split_lines content))"

text \<open>The dictionary of one language in the report; the general scan has no
  \<^verbatim>\<open>files_scanned\<close> key.\<close>

record scan_language =
  sl_files_scanned :: "nat option"
  sl_vulnerabilities :: "vuln list"

definition scan_python_files :: "pylib \<Rightarrow> project \<Rightarrow> scan_language option" where
  "scan_python_files lib proj =
     (let python_files = glob_suffix proj ''.py'' in
        if python_files = [] then None
        else Some \<lparr>sl_files_scanned = Some (length python_files),
                   sl_vulnerabilities = concat (map (scan_python_file lib proj) python_files)\<rparr>)"

text \<open>\<^verbatim>\<open>dangerous_commands\<close> of \<^verbatim>\<open>SecurityScanner._check_shell_vulnerability\<close>, in the
  order of the dictionary literal.\<close>

definition dangerous_commands :: "(string \<times> string \<times> string \<times> string) list" where
  "dangerous_commands =
     [(''rm -rf /'', ''critical'', ''Dangerous rm command'',
         ''Never use rm -rf / - specify exact paths''),
      (''chmod 777'', ''high'', ''Overly permissive permissions'',
         ''Use minimal required permissions''),
      (''curl | bash'', ''high'', ''Piping curl to bash'',
         ''Download script first, review it, then execute''),
      (''wget | bash'', ''high'', ''Piping wget to bash'',
         ''Download script first, review it, then execute''),
      (''sudo '', ''medium'', ''Use of sudo'',
         ''Minimize sudo usage and use specific permissions'')]"

definition password_patterns :: "rx list" where
  "password_patterns =
     [quoted_assignment ''password'', quoted_assignment ''PASSWORD'', quoted_assignment ''passwd'']"

text \<open>\<^verbatim>\<open>SecurityScanner._check_shell_vulnerability\<close>\<close>

definition check_shell_vulnerability :: "re_search_fn \<Rightarrow> string \<Rightarrow> nat \<Rightarrow> string \<Rightarrow> vuln option" where
  "check_shell_vulnerability search line line_num file_path =
     (case find (\<lambda>(pattern, vuln_info). substr_in pattern line) dangerous_commands of
        Some info \<Rightarrow> Some (dangerous_entry line line_num file_path info)
      | None \<Rightarrow>
          (if substr_in ''$'' line \<and> (substr_in ''eval'' line \<or> substr_in ''source'' line)
           then Some \<lparr>vuln_file = file_path, vuln_line = line_num, vuln_severity = ''high'',
                      vuln_issue = ''Potential command injection via variable'',
                      vuln_code = Some line,
                      vuln_recommendation =
                        ''Validate and sanitize variables before using in commands''\<rparr>
           else (case find (\<lambda>pattern. search pattern True line) password_patterns of
                   Some pattern \<Rightarrow>
                     Some \<lparr>vuln_file = file_path, vuln_line = line_num, vuln_severity = ''high'',
                           vuln_issue = ''Potential hardcoded password'', vuln_code = Some line,
                           vuln_recommendation =
                             ''Use environment variables or secure credential storage''\<rparr>
                 | None \<Rightarrow> None)))"

text \<open>\<^verbatim>\<open>SecurityScanner._scan_shell_file\<close>\<close>

definition scan_shell_file :: "pylib \<Rightarrow> project \<Rightarrow> fs_entry \<Rightarrow> vuln list" where
  "scan_shell_file lib proj file_path =
     (case fe_read file_path of
        Inl e \<Rightarrow>
          [\<lparr>vuln_file = path_str proj file_path, vuln_line = 0, vuln_severity = ''info'',
            vuln_issue = ''Could not scan file: '' @ e, vuln_code = None,
            vuln_recommendation = ''Check file permissions and encoding''\<rparr>]
      | Inr content \<Rightarrow>
          scan_lines (\<lambda>line_clean i.
              check_shell_vulnerability (re_search lib) line_clean i (path_str proj file_path))
            (split_lines content))"

definition scan_shell_scripts :: "pylib \<Rightarrow> project \<Rightarrow> scan_language option" where
  "scan_shell_scripts lib proj =
     (let shell_files = glob_suffix proj ''.sh'' in
        if shell_files = [] then None
        else Some \<lparr>sl_files_scanned = Some (length shell_files),
                   sl_vulnerabilities = concat (map (scan_shell_file lib proj) shell_files)\<rparr>)"

definition config_suffixes :: "string list" where
  "config_suffixes = [''.yml'', ''.yaml'', ''.json'', ''.conf'', ''.ini'']"

definition secret_keywords :: "string list" where
  "secret_keywords = [''password'', ''secret'', ''key'', ''token'']"

text \<open>The check of one stripped line in \<^verbatim>\<open>SecurityScanner._scan_config_file\<close>.\<close>

definition check_config_line :: "string \<Rightarrow> string \<Rightarrow> nat \<Rightarrow> vuln option" where
  "check_config_line file line_clean i =
     (if list_ex (\<lambda>keyword. substr_in keyword (lower line_clean)) secret_keywords
         \<and> (substr_in ''='' line_clean \<or> substr_in '':'' line_clean)
      then Some \<lparr>vuln_file = file, vuln_line = i, vuln_severity = ''medium'',
                 vuln_issue = ''Potential sensitive data in config file'',
                 vuln_code = Some line_clean,
                 vuln_recommendation =
                   ''Move sensitive data to environment variables or secure vaults''\<rparr>
      else None)"

definition scan_config_file :: "project \<Rightarrow> fs_entry \<Rightarrow> vuln list" where
  "scan_config_file proj file_path =
     (case fe_read file_path of
        Inl e \<Rightarrow>
          [\<lparr>vuln_file = path_str proj file_path, vuln_line = 0, vuln_severity = ''info'',
            vuln_issue = ''Could not scan config file: '' @ e, vuln_code = None,
            vuln_recommendation = ''Check file permissions and format''\<rparr>]
      | Inr content \<Rightarrow>
          scan_lines (check_config_line (path_str proj file_path)) (split_lines content))"

definition scan_config_files :: "project \<Rightarrow> scan_language option" where
  "scan_config_files proj =
     (let config_files = concat (map (glob_suffix proj) config_suffixes) in
        if config_files = [] then None
        else Some \<lparr>sl_files_scanned = Some (length config_files),
                   sl_vulnerabilities = concat (map (scan_config_file proj) config_files)\<rparr>)"

text \<open>\<^verbatim>\<open>oct(n)\<close>\<close>

function oct_digits :: "nat \<Rightarrow> string" where
  "oct_digits n =
     (if n < 8 then [''01234567'' ! n] else oct_digits (n div 8) @ [''01234567'' ! (n mod 8)])"
  by pat_completeness auto
termination
  by (relation "measure id") auto

declare oct_digits.simps [simp del]

definition oct_str :: "nat \<Rightarrow> string" where
  "oct_str n = ''0o'' @ oct_digits n"

text \<open>
  The two loops of \<^verbatim>\<open>SecurityScanner.scan_general_security\<close> over \<^verbatim>\<open>glob("**/*")\<close>:
  \<^verbatim>\<open>st_mode & 0o002\<close> is the world-write bit; an exception of \<^verbatim>\<open>stat()\<close> is passed over.
\<close>

definition world_writable_entry :: "project \<Rightarrow> fs_entry \<Rightarrow> vuln list" where
  "world_writable_entry proj file_path =
     (if fe_is_file file_path then
        (case fe_stat file_path of
           None \<Rightarrow> []
         | Some (st_mode, st_size) \<Rightarrow>
             if (st_mode div 2) mod 2 = 1
             then [\<lparr>vuln_file = path_str proj file_path, vuln_line = 0,
                    vuln_severity = ''medium'', vuln_issue = ''World-writable file'',
                    vuln_code = Some (''Permissions: '' @ oct_str st_mode),
                    vuln_recommendation = ''Remove world-write permissions: chmod o-w''\<rparr>]
             else [])
      else [])"

definition large_file_entry :: "project \<Rightarrow> fs_entry \<Rightarrow> vuln list" where
  "large_file_entry proj file_path =
     (if fe_is_file file_path then
        (case fe_stat file_path of
           None \<Rightarrow> []
         | Some (st_mode, st_size) \<Rightarrow>
             if st_size > 100 * 1024 * 1024
             then [\<lparr>vuln_file = path_str proj file_path, vuln_line = 0,
                    vuln_severity = ''low'', vuln_issue = ''Very large file'',
                    vuln_code = Some (''Size: '' @ str_nat st_size @ '' bytes''),
                    vuln_recommendation =
                      ''Consider if this file should be in version control''\<rparr>]
             else [])
      else [])"

definition scan_general_security :: "project \<Rightarrow> scan_language option" where
  "scan_general_security proj =
     (let vulnerabilities = concat (map (world_writable_entry proj) (glob_all proj))
                            @ concat (map (large_file_entry proj) (glob_all proj))
      in if vulnerabilities = [] then None
         else Some \<lparr>sl_files_scanned = None, sl_vulnerabilities = vulnerabilities\<rparr>)"

text \<open>
  The scanner object: \<^verbatim>\<open>self.vulnerabilities\<close>, the dictionary of severity buckets that
  \<^verbatim>\<open>__init__\<close> creates empty. No method of the class appends to a bucket or assigns to it.
\<close>

record security_scanner =
  ss_vulnerabilities :: "string \<rightharpoonup> vuln list"

definition empty_buckets :: "string \<rightharpoonup> vuln list" where
  "empty_buckets =
     [''critical'' \<mapsto> [], ''high'' \<mapsto> [], ''medium'' \<mapsto> [], ''low'' \<mapsto> [], ''info'' \<mapsto> []]"

definition SecurityScanner_init :: security_scanner where
  "SecurityScanner_init = \<lparr>ss_vulnerabilities = empty_buckets\<rparr>"

record scan_summary =
  total_vulnerabilities :: nat
  critical_count :: nat
  high_count :: nat
  medium_count :: nat
  low_count :: nat
  info_count :: nat

text \<open>
  \<^verbatim>\<open>SecurityScanner._calculate_summary\<close>: the loop over the five severities, one
  \<^verbatim>\<open>len(self.vulnerabilities[severity])\<close> each, which raises KeyError on a missing bucket.
\<close>

definition scanner_calculate_summary :: "security_scanner \<Rightarrow> py_error + scan_summary" where
  "scanner_calculate_summary self =
     bind_err (dict_get (ss_vulnerabilities self) ''critical'') (\<lambda>critical.
     bind_err (dict_get (ss_vulnerabilities self) ''high'') (\<lambda>high.
     bind_err (dict_get (ss_vulnerabilities self) ''medium'') (\<lambda>medium.
     bind_err (dict_get (ss_vulnerabilities self) ''low'') (\<lambda>low.
     bind_err (dict_get (ss_vulnerabilities self) ''info'') (\<lambda>info.
       Inr \<lparr>total_vulnerabilities =
               length critical + length high + length medium + length low + length info,
            critical_count = length critical, high_count = length high,
            medium_count = length medium, low_count = length low,
            info_count = length info\<rparr>)))))"

text \<open>The recommendation lines of the security report, each by its kind and count.\<close>

datatype scan_recommendation =
    AddressCritical nat
  | FixHighSeverity nat
  | ReviewMediumSeverity nat
  | NoVulnerabilitiesFound
  | UseEnvironmentVariables
  | ValidateInput
  | UseParameterizedQueries
  | LeastPrivilege
  | ScanDependencies

text \<open>\<^verbatim>\<open>SecurityScanner._generate_recommendations\<close>\<close>

definition scanner_generate_recommendations :: "security_scanner \<Rightarrow> py_error + scan_recommendation list" where
  "scanner_generate_recommendations self =
     bind_err (scanner_calculate_summary self) (\<lambda>summary.
       Inr ((if critical_count summary > 0 then [AddressCritical (critical_count summary)] else [])
            @ (if high_count summary > 0 then [FixHighSeverity (high_count summary)] else [])
            @ (if medium_count summary > 0 then [ReviewMediumSeverity (medium_count summary)] else [])
            @ (if total_vulnerabilities summary = 0 then [NoVulnerabilitiesFound] else [])
            @ [UseEnvironmentVariables, ValidateInput, UseParameterizedQueries, LeastPrivilege,
               ScanDependencies]))"

record scan_results =
  sr_vulnerabilities :: "string \<rightharpoonup> vuln list"
  sr_summary :: scan_summary
  sr_languages :: "(string \<times> scan_language) list"
  sr_recommendations :: "scan_recommendation list"

text \<open>One \<^verbatim>\<open>if lang_results: results["languages"][lang] = lang_results\<close> block.\<close>

definition language_item :: "string \<Rightarrow> 'a option \<Rightarrow> (string \<times> 'a) list" where
  "language_item lang lang_results =
     (case lang_results of None \<Rightarrow> [] | Some r \<Rightarrow> [(lang, r)])"

text \<open>
  \<^verbatim>\<open>SecurityScanner.scan_all_files\<close>: the report or the exception, and the scanner object
  after the call. \<^verbatim>\<open>results["vulnerabilities"]\<close> is a copy of \<^verbatim>\<open>self.vulnerabilities\<close>; the
  entries found go to \<^verbatim>\<open>results["languages"]\<close> only.
\<close>

definition scan_all_files :: "pylib \<Rightarrow> project \<Rightarrow> security_scanner \<Rightarrow> (py_error + scan_results) \<times> security_scanner" where
  "scan_all_files lib proj self =
     (let languages = language_item ''python'' (scan_python_files lib proj)
                      @ language_item ''shell'' (scan_shell_scripts lib proj)
                      @ language_item ''config'' (scan_config_files proj)
                      @ language_item ''general'' (scan_general_security proj)
      in (bind_err (scanner_calculate_summary self) (\<lambda>summary.
          bind_err (scanner_generate_recommendations self) (\<lambda>recommendations.
            Inr \<lparr>sr_vulnerabilities = ss_vulnerabilities self, sr_summary = summary,
                 sr_languages = languages, sr_recommendations = recommendations\<rparr>)),
          self))"



section \<open>CodeReviewAutomator\<close>

text \<open>
  An issue is the dictionary the reviewer builds, with the keys \<^verbatim>\<open>file\<close>, \<^verbatim>\<open>line\<close>,
  \<^verbatim>\<open>category\<close>, \<^verbatim>\<open>severity\<close>, \<^verbatim>\<open>issue\<close> and \<^verbatim>\<open>recommendation\<close>.
\<close>

record issue =
  issue_file :: string
  issue_line :: nat
  issue_category :: string
  issue_severity :: string
  issue_text :: string
  issue_recommendation :: string

text \<open>\<^verbatim>\<open>count_nested_ifs\<close> of \<^verbatim>\<open>visit_If\<close>.\<close>

fun count_nested_ifs :: "py_ast \<Rightarrow> nat \<Rightarrow> nat" where
  "count_nested_ifs (If lineno body orelse) depth =
     fold (\<lambda>child max_depth. max max_depth (count_nested_ifs child (depth + 1)))
       (body @ orelse) (max depth (depth + 1))"
| "count_nested_ifs (FunctionDef name lineno end_lineno nargs doc body) depth = depth"
| "count_nested_ifs (ClassDef name lineno doc body) depth = depth"
| "count_nested_ifs (Other children) depth = depth"

text \<open>
  The visitor \<^verbatim>\<open>CodeAnalyzer\<close> of \<^verbatim>\<open>CodeReviewAutomator._analyze_ast\<close>: \<^verbatim>\<open>visit\<close> of a
  node appends the node's own issues and then visits the children in field order
  (\<^verbatim>\<open>generic_visit\<close>).
\<close>

fun visit :: "string \<Rightarrow> py_ast \<Rightarrow> issue list" where
  "visit file_path (FunctionDef name lineno end_lineno nargs doc body) =
     (if length body > 50
      then [\<lparr>issue_file = file_path, issue_line = lineno, issue_category = ''maintainability'',
             issue_severity = ''medium'',
             issue_text = ''Function '' @ [sq] @ name @ [sq] @ '' is too long (''
                          @ str_nat (length body) @ '' lines)'',
             issue_recommendation = ''Break down into smaller functions (max 30 lines)''\<rparr>]
      else [])
     @ (if nargs > 5
        then [\<lparr>issue_file = file_path, issue_line = lineno, issue_category = ''maintainability'',
               issue_severity = ''medium'',
               issue_text = ''Function '' @ [sq] @ name @ [sq] @ '' has too many parameters (''
                            @ str_nat nargs @ '')'',
               issue_recommendation = ''Use a configuration object or reduce parameters''\<rparr>]
        else [])
     @ concat (map (visit file_path) body)"
| "visit file_path (ClassDef name lineno doc body) =
     (if length body > 200
      then [\<lparr>issue_file = file_path, issue_line = lineno, issue_category = ''maintainability'',
             issue_severity = ''medium'',
             issue_text = ''Class '' @ [sq] @ name @ [sq] @ '' is too large (''
                          @ str_nat (length body) @ '' lines)'',
             issue_recommendation = ''Split into smaller classes or modules''\<rparr>]
      else [])
     @ concat (map (visit file_path) body)"
| "visit file_path (If lineno body orelse) =
     (let nested_depth = count_nested_ifs (If lineno body orelse) 0 in
        if nested_depth > 3
        then [\<lparr>issue_file = file_path, issue_line = lineno, issue_category = ''maintainability'',
               issue_severity = ''medium'',
               issue_text = ''Deeply nested if statements (depth '' @ str_nat nested_depth @ '')'',
               issue_recommendation = ''Extract nested logic into separate functions''\<rparr>]
        else [])
     @ concat (map (visit file_path) (body @ orelse))"
| "visit file_path (Other children) = concat (map (visit file_path) children)"

definition analyze_ast :: "py_ast \<Rightarrow> string \<Rightarrow> issue list" where
  "analyze_ast tree file_path = visit file_path tree"

text \<open>\<^verbatim>\<open>\b\d{2,}\b\<close>\<close>

definition magic_number_rx :: rx where
  "magic_number_rx = Seq [WordB, AtLeast 2 Digit, WordB]"

text \<open>\<^verbatim>\<open>CodeReviewAutomator._analyze_python_line\<close>\<close>

definition analyze_python_line :: "pylib \<Rightarrow> string \<Rightarrow> nat \<Rightarrow> string \<Rightarrow> issue list" where
  "analyze_python_line lib line line_num file_path =
     (if length line > 88
      then [\<lparr>issue_file = file_path, issue_line = line_num, issue_category = ''style'',
             issue_severity = ''low'',
             issue_text = ''Line too long ('' @ str_nat (length line) @ '' characters)'',
             issue_recommendation = ''Break line to fit within 88 characters''\<rparr>]
      else [])
     @ (if substr_in ''TODO'' (upper line)
        then [\<lparr>issue_file = file_path, issue_line = line_num,
               issue_category = ''maintainability'', issue_severity = ''low'',
               issue_text = ''TODO comment found'',
               issue_recommendation = ''Address TODO or convert to proper issue tracking''\<rparr>]
        else [])
     @ (if substr_in ''print('' line \<and> \<not> endswith file_path ''test.py''
        then [\<lparr>issue_file = file_path, issue_line = line_num, issue_category = ''style'',
               issue_severity = ''medium'',
               issue_text = ''Print statement in production code'',
               issue_recommendation = ''Use proper logging instead of print statements''\<rparr>]
        else [])
     @ (if substr_in ''except:'' line \<and> \<not> substr_in ''Exception'' line
        then [\<lparr>issue_file = file_path, issue_line = line_num, issue_category = ''logic'',
               issue_severity = ''medium'', issue_text = ''Bare except clause'',
               issue_recommendation = ''Specify exception types to catch''\<rparr>]
        else [])
     @ map (\<lambda>num. \<lparr>issue_file = file_path, issue_line = line_num,
                     issue_category = ''maintainability'', issue_severity = ''low'',
                     issue_text = ''Magic number '' @ [sq] @ num @ [sq] @ '' found'',
                     issue_recommendation = ''Replace with named constant''\<rparr>)
         (filter (\<lambda>num. num \<notin> set [''0'', ''1'', ''100''])
            (re_findall lib magic_number_rx line))"

text \<open>The line loop of \<^verbatim>\<open>_review_python_file\<close> and \<^verbatim>\<open>_review_shell_file\<close>: empty lines
  and comment lines are skipped.\<close>

definition review_lines :: "(string \<Rightarrow> nat \<Rightarrow> issue list) \<Rightarrow> string list \<Rightarrow> issue list" where
  "review_lines analyze lines =
     concat (map (\<lambda>(i, line).
                    let line_clean = strip line in
                      if line_clean = [] \<or> startswith line_clean ''#'' then []
                      else analyze line_clean i)
               (enumerate 1 lines))"

definition could_not_review :: "string \<Rightarrow> string \<Rightarrow> string \<Rightarrow> string \<Rightarrow> issue" where
  "could_not_review file what e recommendation =
     \<lparr>issue_file = file, issue_line = 0, issue_category = ''logic'', issue_severity = ''info'',
      issue_text = ''Could not review '' @ what @ '': '' @ e,
      issue_recommendation = recommendation\<rparr>"

text \<open>
  \<^verbatim>\<open>CodeReviewAutomator._review_python_file\<close>: a SyntaxError of \<^verbatim>\<open>ast.parse\<close> becomes an
  issue (with \<^verbatim>\<open>e.lineno or 0\<close>) and the line analysis goes on; any other exception of
  \<^verbatim>\<open>open\<close>, \<^verbatim>\<open>read\<close> or \<^verbatim>\<open>ast.parse\<close> ends the review of the file with one issue.
\<close>

definition review_python_file :: "pylib \<Rightarrow> project \<Rightarrow> fs_entry \<Rightarrow> issue list" where
  "review_python_file lib proj file_path =
     (let file = path_str proj file_path in
        case fe_read file_path of
          Inl e \<Rightarrow> [could_not_review file ''file'' e ''Check file permissions and encoding'']
        | Inr content \<Rightarrow>
            (let lines = split_lines content in
               case ast_parse lib content of
                 ParseFailure e \<Rightarrow>
                   [could_not_review file ''file'' e ''Check file permissions and encoding'']
               | Parsed tree \<Rightarrow>
                   analyze_ast tree file
                   @ review_lines (\<lambda>line_clean i. analyze_python_line lib line_clean i file) lines
               | SyntaxError lineno msg \<Rightarrow>
                   [\<lparr>issue_file = file,
                     issue_line = (case lineno of None \<Rightarrow> 0 | Some n \<Rightarrow> n),
                     issue_category = ''logic'', issue_severity = ''high'',
                     issue_text = ''Syntax error: '' @ msg,
                     issue_recommendation = ''Fix syntax error before proceeding''\<rparr>]
                   @ review_lines (\<lambda>line_clean i. analyze_python_line lib line_clean i file) lines))"

text \<open>The dictionary of one language in the review report; the documentation review has
  no \<^verbatim>\<open>files_reviewed\<close> key.\<close>

record review_language =
  rl_files_reviewed :: "nat option"
  rl_issues :: "issue list"

definition review_python_files :: "pylib \<Rightarrow> project \<Rightarrow> review_language option" where
  "review_python_files lib proj =
     (let python_files = glob_suffix proj ''.py'' in
        if python_files = [] then None
        else Some \<lparr>rl_files_reviewed = Some (length python_files),
                   rl_issues = concat (map (review_python_file lib proj) python_files)\<rparr>)"

text \<open>\<^verbatim>\<open>\$[A-Za-z_][A-Za-z0-9_]*[^"]\<close>\<close>

definition unquoted_variable_rx :: rx where
  "unquoted_variable_rx =
     Seq [Lit ''$'',
          OneOf [(CHR ''A'', CHR ''Z''), (CHR ''a'', CHR ''z''), (CHR ''_'', CHR ''_'')],
          Star (OneOf [(CHR ''A'', CHR ''Z''), (CHR ''a'', CHR ''z''), (CHR ''0'', CHR ''9''),
                       (CHR ''_'', CHR ''_'')]),
          NoneOf [(dq, dq)]]"

text \<open>\<^verbatim>\<open>CodeReviewAutomator._analyze_shell_line\<close>\<close>

definition analyze_shell_line :: "pylib \<Rightarrow> string \<Rightarrow> nat \<Rightarrow> string \<Rightarrow> issue list" where
  "analyze_shell_line lib line line_num file_path =
     (if re_search lib unquoted_variable_rx False line
      then [\<lparr>issue_file = file_path, issue_line = line_num, issue_category = ''logic'',
             issue_severity = ''medium'', issue_text = ''Unquoted variable expansion'',
             issue_recommendation = ''Quote variable expansions to prevent word splitting''\<rparr>]
      else [])
     @ (if line_num = 1 \<and> \<not> substr_in ''set -e'' line
        then [\<lparr>issue_file = file_path, issue_line = line_num, issue_category = ''logic'',
               issue_severity = ''medium'',
               issue_text = ''Missing '' @ [sq] @ ''set -e'' @ [sq] @ '' for error handling'',
               issue_recommendation =
                 ''Add '' @ [sq] @ ''set -e'' @ [sq] @ '' at script beginning to exit on errors''\<rparr>]
        else [])
     @ (if substr_in ''/usr/local'' line \<or> substr_in ''/opt/'' line
        then [\<lparr>issue_file = file_path, issue_line = line_num,
               issue_category = ''maintainability'', issue_severity = ''low'',
               issue_text = ''Hardcoded system path'',
               issue_recommendation = ''Use variables for configurable paths''\<rparr>]
        else [])"

definition review_shell_file :: "pylib \<Rightarrow> project \<Rightarrow> fs_entry \<Rightarrow> issue list" where
  "review_shell_file lib proj file_path =
     (let file = path_str proj file_path in
        case fe_read file_path of
          Inl e \<Rightarrow> [could_not_review file ''file'' e ''Check file permissions and encoding'']
        | Inr content \<Rightarrow>
            review_lines (\<lambda>line_clean i. analyze_shell_line lib line_clean i file)
              (split_lines content))"

definition review_shell_scripts :: "pylib \<Rightarrow> project \<Rightarrow> review_language option" where
  "review_shell_scripts lib proj =
     (let shell_files = glob_suffix proj ''.sh'' in
        if shell_files = [] then None
        else Some \<lparr>rl_files_reviewed = Some (length shell_files),
                   rl_issues = concat (map (review_shell_file lib proj) shell_files)\<rparr>)"

text \<open>The check of one line in \<^verbatim>\<open>CodeReviewAutomator._review_config_file\<close>.\<close>

definition review_config_line :: "string \<Rightarrow> nat \<times> string \<Rightarrow> issue list" where
  "review_config_line file il =
     (case il of (i, line) \<Rightarrow>
        let line_clean = strip line in
          if startswith line_clean ''#'' \<and> (substr_in ''='' line_clean \<or> substr_in '':'' line_clean)
          then [\<lparr>issue_file = file, issue_line = i, issue_category = ''maintainability'',
                 issue_severity = ''low'', issue_text = ''Commented out configuration'',
                 issue_recommendation =
                   ''Remove commented configuration or document why it'' @ [sq] @ ''s disabled''\<rparr>]
          else [])"

definition review_config_file :: "project \<Rightarrow> fs_entry \<Rightarrow> issue list" where
  "review_config_file proj file_path =
     (let file = path_str proj file_path in
        case fe_read file_path of
          Inl e \<Rightarrow> [could_not_review file ''config file'' e ''Check file permissions and format'']
        | Inr content \<Rightarrow>
            concat (map (review_config_line file) (enumerate 1 (split_lines content))))"

definition review_config_files :: "project \<Rightarrow> review_language option" where
  "review_config_files proj =
     (let config_files = concat (map (glob_suffix proj) config_suffixes) in
        if config_files = [] then None
        else Some \<lparr>rl_files_reviewed = Some (length config_files),
                   rl_issues = concat (map (review_config_file proj) config_files)\<rparr>)"

text \<open>The function and class nodes without a docstring, counted over \<^verbatim>\<open>ast.walk\<close>.\<close>

fun undocumented :: "py_ast \<Rightarrow> bool" where
  "undocumented (FunctionDef name lineno end_lineno nargs doc body) = (\<not> doc)"
| "undocumented (ClassDef name lineno doc body) = (\<not> doc)"
| "undocumented (If lineno body orelse) = False"
| "undocumented (Other children) = False"

text \<open>One pass of the loop over the Python files in \<^verbatim>\<open>review_documentation\<close>: every
  exception is passed over (\<^verbatim>\<open>except: pass\<close>).\<close>

definition undocumented_in_file :: "pylib \<Rightarrow> fs_entry \<Rightarrow> nat" where
  "undocumented_in_file lib py_file =
     (case fe_read py_file of
        Inl e \<Rightarrow> 0
      | Inr content \<Rightarrow>
          (case ast_parse lib content of
             Parsed tree \<Rightarrow> length (filter undocumented (ast_walk tree))
           | SyntaxError lineno msg \<Rightarrow> 0
           | ParseFailure e \<Rightarrow> 0))"

text \<open>\<^verbatim>\<open>CodeReviewAutomator.review_documentation\<close>\<close>

definition review_documentation :: "pylib \<Rightarrow> project \<Rightarrow> review_language option" where
  "review_documentation lib proj =
     (let readme_files = glob_prefix proj ''README'';
          undocumented_functions =
            sum_list (map (undocumented_in_file lib) (glob_suffix proj ''.py''));
          issues =
            (if readme_files = []
             then [\<lparr>issue_file = ''project_root'', issue_line = 0,
                    issue_category = ''maintainability'', issue_severity = ''medium'',
                    issue_text = ''Missing README file'',
                    issue_recommendation =
                      ''Add README.md with project description and setup instructions''\<rparr>]
             else [])
            @ (if undocumented_functions > 0
               then [\<lparr>issue_file = ''multiple_files'', issue_line = 0,
                      issue_category = ''maintainability'', issue_severity = ''low'',
                      issue_text = str_nat undocumented_functions
                                   @ '' functions/classes missing docstrings'',
                      issue_recommendation =
                        ''Add docstrings to all public functions and classes''\<rparr>]
               else [])
      in if issues = [] then None
         else Some \<lparr>rl_files_reviewed = None, rl_issues = issues\<rparr>)"

text \<open>
  The reviewer object: \<^verbatim>\<open>self.issues\<close>, the dictionary of category lists that
  \<^verbatim>\<open>__init__\<close> creates empty. No method of the class appends to a list or assigns to it.
\<close>

record code_review_automator =
  cra_issues :: "string \<rightharpoonup> issue list"

definition empty_issues :: "string \<rightharpoonup> issue list" where
  "empty_issues =
     [''style'' \<mapsto> [], ''logic'' \<mapsto> [], ''security'' \<mapsto> [], ''performance'' \<mapsto> [],
      ''maintainability'' \<mapsto> []]"

definition CodeReviewAutomator_init :: code_review_automator where
  "CodeReviewAutomator_init = \<lparr>cra_issues = empty_issues\<rparr>"

definition categories :: "string list" where
  "categories = [''style'', ''logic'', ''security'', ''performance'', ''maintainability'']"

text \<open>
  \<^verbatim>\<open>CodeReviewAutomator._calculate_summary\<close>: the summary dictionary, with the loop over
  the five categories; \<^verbatim>\<open>self.issues[category]\<close> raises KeyError on a missing category.
\<close>

definition initial_summary :: "string \<rightharpoonup> nat" where
  "initial_summary =
     [''total_issues'' \<mapsto> 0, ''style_count'' \<mapsto> 0, ''logic_count'' \<mapsto> 0,
      ''security_count'' \<mapsto> 0, ''performance_count'' \<mapsto> 0, ''maintainability_count'' \<mapsto> 0]"

fun summary_loop :: "code_review_automator \<Rightarrow> string list \<Rightarrow> (string \<rightharpoonup> nat) \<Rightarrow> py_error + (string \<rightharpoonup> nat)" where
  "summary_loop self [] summary = Inr summary"
| "summary_loop self (category # rest) summary =
     bind_err (dict_get (cra_issues self) category) (\<lambda>found.
     bind_err (dict_get summary ''total_issues'') (\<lambda>total.
       summary_loop self rest
         (summary(category @ ''_count'' \<mapsto> length found, ''total_issues'' \<mapsto> total + length found))))"

definition review_calculate_summary :: "code_review_automator \<Rightarrow> py_error + (string \<rightharpoonup> nat)" where
  "review_calculate_summary self = summary_loop self categories initial_summary"

text \<open>\<^verbatim>\<open>deductions\<close> of \<^verbatim>\<open>CodeReviewAutomator._calculate_score\<close>, in the order of the
  dictionary literal.\<close>

definition deductions :: "(string \<times> int) list" where
  "deductions =
     [(''style'', 1), (''logic'', 5), (''security'', 10), (''performance'', 3),
      (''maintainability'', 2)]"

fun score_loop :: "(string \<rightharpoonup> nat) \<Rightarrow> (string \<times> int) list \<Rightarrow> int \<Rightarrow> py_error + int" where
  "score_loop summary [] score = Inr score"
| "score_loop summary ((category, deduction) # rest) score =
     bind_err (dict_get summary (category @ ''_count'')) (\<lambda>count.
       score_loop summary rest (score - min (int count * deduction) 20))"

text \<open>\<^verbatim>\<open>CodeReviewAutomator._calculate_score\<close>\<close>

definition calculate_score :: "code_review_automator \<Rightarrow> py_error + int" where
  "calculate_score self =
     bind_err (review_calculate_summary self) (\<lambda>summary.
     bind_err (score_loop summary deductions 100) (\<lambda>score.
       Inr (max 0 score)))"

text \<open>The recommendation lines of the review report, each by its kind and count.\<close>

datatype review_recommendation =
    ExcellentQuality
  | GoodQuality
  | NeedsAttention
  | SignificantImprovements
  | FixLogicIssues nat
  | AddressSecurityConcerns nat
  | ImproveMaintainability nat
  | AddDocstrings
  | CoverByUnitTests
  | RunTestsBeforeCommit
  | ConsiderCodeReviews

text \<open>\<^verbatim>\<open>CodeReviewAutomator._generate_recommendations\<close>\<close>

definition review_generate_recommendations :: "code_review_automator \<Rightarrow> py_error + review_recommendation list" where
  "review_generate_recommendations self =
     bind_err (review_calculate_summary self) (\<lambda>summary.
     bind_err (calculate_score self) (\<lambda>score.
     bind_err (dict_get summary ''logic_count'') (\<lambda>logic_count.
     bind_err (dict_get summary ''security_count'') (\<lambda>security_count.
     bind_err (dict_get summary ''maintainability_count'') (\<lambda>maintainability_count.
       Inr ([if score \<ge> 90 then ExcellentQuality
             else if score \<ge> 75 then GoodQuality
             else if score \<ge> 60 then NeedsAttention
             else SignificantImprovements]
            @ (if logic_count > 0 then [FixLogicIssues logic_count] else [])
            @ (if security_count > 0 then [AddressSecurityConcerns security_count] else [])
            @ (if maintainability_count > 0 then [ImproveMaintainability maintainability_count]
               else [])
            @ [AddDocstrings, CoverByUnitTests, RunTestsBeforeCommit, ConsiderCodeReviews]))))))"

record review_results =
  rr_issues :: "string \<rightharpoonup> issue list"
  rr_summary :: "string \<rightharpoonup> nat"
  rr_languages :: "(string \<times> review_language) list"
  rr_recommendations :: "review_recommendation list"
  rr_score :: int

text \<open>
  \<^verbatim>\<open>CodeReviewAutomator.run_full_review\<close>: the report or the exception, and the reviewer
  object after the call. \<^verbatim>\<open>results["issues"]\<close> is a copy of \<^verbatim>\<open>self.issues\<close>; the issues
  found go to \<^verbatim>\<open>results["languages"]\<close> only.
\<close>

definition run_full_review :: "pylib \<Rightarrow> project \<Rightarrow> code_review_automator \<Rightarrow> (py_error + review_results) \<times> code_review_automator" where
  "run_full_review lib proj self =
     (let languages = language_item ''python'' (review_python_files lib proj)
                      @ language_item ''shell'' (review_shell_scripts lib proj)
                      @ language_item ''config'' (review_config_files proj)
                      @ language_item ''documentation'' (review_documentation lib proj)
      in (bind_err (review_calculate_summary self) (\<lambda>summary.
          bind_err (calculate_score self) (\<lambda>score.
          bind_err (review_generate_recommendations self) (\<lambda>recommendations.
            Inr \<lparr>rr_issues = cra_issues self, rr_summary = summary, rr_languages = languages,
                 rr_recommendations = recommendations, rr_score = score\<rparr>))),
          self))"

text \<open>The issues a review report holds, over all its languages in report order.\<close>

definition review_findings :: "review_results \<Rightarrow> issue list" where
  "review_findings results = concat (map (\<lambda>(lang, r). rl_issues r) (rr_languages results))"

text \<open>
  The score the specification describes, computed from a list of emitted issues: 100
  minus, per category, the number of issues of the category times its weight, capped at
  20, and floored at 0.
\<close>

definition count_category :: "issue list \<Rightarrow> string \<Rightarrow> nat" where
  "count_category found category = length (filter (\<lambda>i. issue_category i = category) found)"

definition spec_score :: "issue list \<Rightarrow> int" where
  "spec_score found =
     max 0 (100 - (\<Sum>(category, deduction) \<leftarrow> deductions.
                     min (int (count_category found category) * deduction) 20))"


section \<open>Notions for the review score\<close>

text \<open>The reviewer object with one more issue in the list of a category (the
  object is left as it is when it has no such category).\<close>

definition extend_issues :: "code_review_automator \<Rightarrow> string \<Rightarrow> issue \<Rightarrow> code_review_automator" where
  "extend_issues self category f =
     (case cra_issues self category of
        None \<Rightarrow> self
      | Some found \<Rightarrow> self\<lparr>cra_issues := (cra_issues self)(category \<mapsto> found @ [f])\<rparr>)"

text \<open>The capped deduction of one category: \<^verbatim>\<open>min(count * deduction, 20)\<close>.\<close>

definition penalty :: "'a list \<Rightarrow> int \<Rightarrow> int" where
  "penalty found deduction = min (int (length found) * deduction) 20"

text \<open>Example data for the reviewer: an issue, the summary of a reviewer without
  issues, the languages of a report, a project without any file, and the issue the
  documentation review gives for it.\<close>

definition example_issue :: issue where
  "example_issue =
     \<lparr>issue_file = ''/repo/app.py'', issue_line = 3, issue_category = ''logic'',
      issue_severity = ''medium'', issue_text = ''Bare except clause'',
      issue_recommendation = ''Specify exception types to catch''\<rparr>"

definition zero_summary :: "string \<rightharpoonup> nat" where
  "zero_summary =
     [''total_issues'' \<mapsto> 0, ''style_count'' \<mapsto> 0, ''logic_count'' \<mapsto> 0,
      ''security_count'' \<mapsto> 0, ''performance_count'' \<mapsto> 0, ''maintainability_count'' \<mapsto> 0]"

definition review_languages :: "pylib \<Rightarrow> project \<Rightarrow> (string \<times> review_language) list" where
  "review_languages lib proj =
     language_item ''python'' (review_python_files lib proj)
     @ language_item ''shell'' (review_shell_scripts lib proj)
     @ language_item ''config'' (review_config_files proj)
     @ language_item ''documentation'' (review_documentation lib proj)"

definition bare_project :: project where
  "bare_project = \<lparr>project_root = ''/repo'', entries = []\<rparr>"

definition missing_readme :: issue where
  "missing_readme =
     \<lparr>issue_file = ''project_root'', issue_line = 0, issue_category = ''maintainability'',
      issue_severity = ''medium'', issue_text = ''Missing README file'',
      issue_recommendation = ''Add README.md with project description and setup instructions''\<rparr>"


section \<open>QualityGateManager: the host and the linting gate\<close>

text \<open>
  What \<^verbatim>\<open>subprocess.run\<close> does: the executable is missing (FileNotFoundError), another
  exception leaves the call, or the process completes with a return code and its two
  output streams.
\<close>

datatype proc =
    FileNotFound
  | Raised py_error
  | Completed int string string

text \<open>What \<^verbatim>\<open>json.loads(process.stdout).get("results", [])\<close> gives on the output of the
  external security tool: a JSONDecodeError, another exception, or the issues with their
  \<^verbatim>\<open>issue_severity\<close> (default \<^verbatim>\<open>info\<close>), \<^verbatim>\<open>filename\<close>, \<^verbatim>\<open>line_number\<close>,
  \<^verbatim>\<open>issue_text\<close> and \<^verbatim>\<open>issue_confidence\<close>.\<close>

record bandit_issue =
  issue_severity_field :: string
  filename :: string
  line_number :: int
  bandit_text :: string
  issue_confidence :: string

datatype bandit_output =
    JSONDecodeError
  | BanditRaised py_error
  | BanditResults "bandit_issue list"

text \<open>An entry of a severity bucket in the security gate: a scanner entry read back from
  a report, an entry built from an issue of the external tool, or the two-key entry of
  the basic checks.\<close>

datatype gate_entry =
    Scanned vuln
  | FromBandit string int string string
  | Basic string string

text \<open>What reading the latest report file gives inside \<^verbatim>\<open>try: ... except: pass\<close>: no
  report file, an exception on the way (the result is left as it was), or the loaded
  data.\<close>

datatype 'a loaded =
    NoReports
  | LoadFailed
  | Loaded 'a

text \<open>The \<^verbatim>\<open>score\<close> of a loaded review report: a JSON number, or a value that Python does
  not compare with a number.\<close>

datatype jscore =
    JNumber real
  | JNotNumber

text \<open>
  The host of a run of the manager: the project tree, the outcome of
  every external process, of \<^verbatim>\<open>compile\<close> (\<open>None\<close>, or the message of the SyntaxError)
  and of \<^verbatim>\<open>yaml.safe_load\<close> (\<open>None\<close>, or the message of the YAMLError) on a text, the
  latest security report (its \<^verbatim>\<open>vulnerabilities\<close> entry, if it has one), the latest review
  report (its \<^verbatim>\<open>score\<close> entry, if it has one, and its recommendations), the clock and
  whether the report file can be written.
\<close>

record host =
  host_proj :: project
  run_flake8 :: proc
  run_shellcheck :: proc
  run_bash_n :: "string \<Rightarrow> proc"
  run_radon :: proc
  run_bandit :: proc
  bandit_json :: "string \<Rightarrow> bandit_output"
  run_security_script :: proc
  latest_security_report :: "(string \<rightharpoonup> gate_entry list) option loaded"
  run_review_script :: proc
  latest_review_report :: "(jscore option \<times> string list) loaded"
  compile_source :: "string \<Rightarrow> string option"
  yaml_module :: bool
  yaml_safe_load :: "string \<Rightarrow> string option"
  clock :: real
  write_error :: "py_error option"

text \<open>\<^verbatim>\<open>self.thresholds\<close> of \<^verbatim>\<open>QualityGateManager.__init__\<close>.\<close>

definition max_errors :: nat where "max_errors = 0"
definition max_warnings :: nat where "max_warnings = 10"
definition max_complexity :: int where "max_complexity = 10"
definition max_lines :: nat where "max_lines = 100"
definition max_critical :: nat where "max_critical = 0"
definition max_high :: nat where "max_high = 0"
definition max_medium :: nat where "max_medium = 5"

definition has_python_files :: "host \<Rightarrow> bool" where
  "has_python_files h = (length (glob_suffix (host_proj h) ''.py'') > 0)"

definition has_shell_files :: "host \<Rightarrow> bool" where
  "has_shell_files h = (length (glob_suffix (host_proj h) ''.sh'') > 0)"

definition has_yaml_files :: "host \<Rightarrow> bool" where
  "has_yaml_files h =
     (length (glob_suffix (host_proj h) ''.yml'') + length (glob_suffix (host_proj h) ''.yaml'') > 0)"

text \<open>The lines of a language's \<^verbatim>\<open>details\<close> list, each by its kind.\<close>

datatype lint_detail =
    NoIssuesFound string
  | ToolNotAvailable string
  | OutputLine string
  | SyntaxOK string
  | SyntaxFailed string string
  | ValidYAML string
  | InvalidYAML string string
  | YAMLNotAvailable

record lint_result =
  errors :: nat
  warnings :: nat
  details :: "lint_detail list"

text \<open>The loop over the output lines of a lint tool: blank lines are skipped, a line
  that \<open>is_error\<close> counts as an error and any other as a warning.\<close>

definition count_output_line :: "(string \<Rightarrow> bool) \<Rightarrow> lint_result \<Rightarrow> string \<Rightarrow> lint_result" where
  "count_output_line is_error result line =
     (if strip line \<noteq> [] then
        (if is_error line
         then result\<lparr>errors := errors result + 1, details := details result @ [OutputLine line]\<rparr>
         else result\<lparr>warnings := warnings result + 1,
                     details := details result @ [OutputLine line]\<rparr>)
      else result)"

text \<open>A loop whose body may raise: it stops at the first exception.\<close>

fun fold_err :: "('s \<Rightarrow> 'a \<Rightarrow> py_error + 's) \<Rightarrow> 's \<Rightarrow> 'a list \<Rightarrow> py_error + 's" where
  "fold_err f s [] = Inr s"
| "fold_err f s (x # xs) = bind_err (f s x) (\<lambda>s'. fold_err f s' xs)"

text \<open>\<^verbatim>\<open>QualityGateManager._run_python_linting\<close>: in the fallback only SyntaxError is
  caught; an exception of \<^verbatim>\<open>read_text\<close> leaves the method.\<close>

definition compile_step :: "host \<Rightarrow> lint_result \<Rightarrow> fs_entry \<Rightarrow> py_error + lint_result" where
  "compile_step h result py_file =
     (case fe_read py_file of
        Inl e \<Rightarrow> Inl (OSError e)
      | Inr text \<Rightarrow>
          (case compile_source h text of
             None \<Rightarrow> Inr result
           | Some e \<Rightarrow>
               Inr (result\<lparr>errors := errors result + 1,
                           details := details result
                              @ [SyntaxFailed (path_str (host_proj h) py_file) e]\<rparr>)))"

definition run_python_linting :: "host \<Rightarrow> py_error + lint_result" where
  "run_python_linting h =
     (case run_flake8 h of
        Completed returncode out err \<Rightarrow>
          if returncode = 0
          then Inr \<lparr>errors = 0, warnings = 0, details = [NoIssuesFound ''flake8'']\<rparr>
          else Inr (foldl (count_output_line (\<lambda>line. substr_in ''error'' (lower line)))
                      \<lparr>errors = 0, warnings = 0, details = []\<rparr>
                      (split_lines out @ split_lines err))
      | FileNotFound \<Rightarrow>
          fold_err (compile_step h)
            \<lparr>errors = 0, warnings = 0, details = [ToolNotAvailable ''flake8'']\<rparr>
            (glob_suffix (host_proj h) ''.py'')
      | Raised e \<Rightarrow> Inl e)"

text \<open>\<^verbatim>\<open>QualityGateManager._run_shell_linting\<close>: in the fallback
  \<^verbatim>\<open>subprocess.run(["bash", "-n", file], check=True)\<close> raises CalledProcessError on a
  non-zero return code, which is the one exception caught.\<close>

definition bash_step :: "host \<Rightarrow> lint_result \<Rightarrow> fs_entry \<Rightarrow> py_error + lint_result" where
  "bash_step h result sh_file =
     (case run_bash_n h (path_str (host_proj h) sh_file) of
        Completed returncode out err \<Rightarrow>
          if returncode = 0
          then Inr (result\<lparr>details := details result @ [SyntaxOK (path_str (host_proj h) sh_file)]\<rparr>)
          else Inr (result\<lparr>errors := errors result + 1,
                           details := details result
                              @ [SyntaxFailed (path_str (host_proj h) sh_file) ''Syntax error'']\<rparr>)
      | FileNotFound \<Rightarrow> Inl (OSError ''bash'')
      | Raised e \<Rightarrow> Inl e)"

definition run_shell_linting :: "host \<Rightarrow> py_error + lint_result" where
  "run_shell_linting h =
     (case run_shellcheck h of
        Completed returncode out err \<Rightarrow>
          if returncode = 0
          then Inr \<lparr>errors = 0, warnings = 0, details = [NoIssuesFound ''shellcheck'']\<rparr>
          else Inr (foldl (count_output_line
                             (\<lambda>line. substr_in ''error'' (lower line)
                                      \<or> substr_in ''critical'' (lower line)))
                      \<lparr>errors = 0, warnings = 0, details = []\<rparr>
                      (split_lines out @ split_lines err))
      | FileNotFound \<Rightarrow>
          fold_err (bash_step h)
            \<lparr>errors = 0, warnings = 0, details = [ToolNotAvailable ''shellcheck'']\<rparr>
            (glob_suffix (host_proj h) ''.sh'')
      | Raised e \<Rightarrow> Inl e)"

text \<open>\<^verbatim>\<open>QualityGateManager._run_yaml_linting\<close>: only YAMLError is caught in the loops; an
  exception of \<^verbatim>\<open>open\<close> leaves the method.\<close>

definition yaml_step :: "host \<Rightarrow> lint_result \<Rightarrow> fs_entry \<Rightarrow> py_error + lint_result" where
  "yaml_step h result yaml_file =
     (case fe_read yaml_file of
        Inl e \<Rightarrow> Inl (OSError e)
      | Inr text \<Rightarrow>
          (case yaml_safe_load h text of
             None \<Rightarrow>
               Inr (result\<lparr>details := details result
                              @ [ValidYAML (path_str (host_proj h) yaml_file)]\<rparr>)
           | Some e \<Rightarrow>
               Inr (result\<lparr>errors := errors result + 1,
                           details := details result
                              @ [InvalidYAML (path_str (host_proj h) yaml_file) e]\<rparr>)))"

definition run_yaml_linting :: "host \<Rightarrow> py_error + lint_result" where
  "run_yaml_linting h =
     (if yaml_module h
      then bind_err (fold_err (yaml_step h) \<lparr>errors = 0, warnings = 0, details = []\<rparr>
                       (glob_suffix (host_proj h) ''.yml''))
             (\<lambda>result. fold_err (yaml_step h) result (glob_suffix (host_proj h) ''.yaml''))
      else Inr \<lparr>errors = 0, warnings = 0, details = [YAMLNotAvailable]\<rparr>)"

record linting_gate =
  lint_status :: string
  lint_languages :: "(string \<times> lint_result) list"
  total_errors :: nat
  total_warnings :: nat

text \<open>One \<^verbatim>\<open>if self._has_..._files(): result["languages"][lang] = ...\<close> block.\<close>

definition lint_language :: "bool \<Rightarrow> string \<Rightarrow> py_error + lint_result \<Rightarrow> py_error + (string \<times> lint_result) list" where
  "lint_language present lang run =
     (if present then bind_err run (\<lambda>r. Inr [(lang, r)]) else Inr [])"

text \<open>\<^verbatim>\<open>QualityGateManager.run_linting_checks\<close>\<close>

definition run_linting_checks :: "host \<Rightarrow> py_error + linting_gate" where
  "run_linting_checks h =
     bind_err (lint_language (has_python_files h) ''python'' (run_python_linting h)) (\<lambda>py.
     bind_err (lint_language (has_shell_files h) ''shell'' (run_shell_linting h)) (\<lambda>sh.
     bind_err (lint_language (has_yaml_files h) ''yaml'' (run_yaml_linting h)) (\<lambda>ya.
       let languages = py @ sh @ ya;
           total_errors = sum_list (map (\<lambda>(lang, r). errors r) languages);
           total_warnings = sum_list (map (\<lambda>(lang, r). warnings r) languages)
       in Inr \<lparr>lint_status = (if total_errors > max_errors then ''failed''
                               else if total_warnings > max_warnings then ''warning''
                               else ''passed''),
               lint_languages = languages, total_errors = total_errors,
               total_warnings = total_warnings\<rparr>)))"


section \<open>QualityGateManager: the complexity gate\<close>

text \<open>\<^verbatim>\<open>line.split()\<close>: the words between runs of white space.\<close>

fun split_ws_loop :: "string \<Rightarrow> string \<Rightarrow> string list" where
  "split_ws_loop cur [] = (if cur = [] then [] else [cur])"
| "split_ws_loop cur (c # cs) =
     (if is_space c
      then (if cur = [] then split_ws_loop [] cs else cur # split_ws_loop [] cs)
      else split_ws_loop (cur @ [c]) cs)"

definition split_ws :: "string \<Rightarrow> string list" where
  "split_ws s = split_ws_loop [] s"

text \<open>\<^verbatim>\<open>int(s)\<close> on a string: surrounding white space, an optional sign, decimal digits
  with single underscores between them; \<open>None\<close> is ValueError.\<close>

definition is_digit :: "char \<Rightarrow> bool" where
  "is_digit c = (48 \<le> (of_char c :: nat) \<and> (of_char c :: nat) \<le> 57)"

fun parse_digits :: "bool \<Rightarrow> nat \<Rightarrow> string \<Rightarrow> nat option" where
  "parse_digits prev acc [] = (if prev then Some acc else None)"
| "parse_digits prev acc (c # cs) =
     (if is_digit c then parse_digits True (acc * 10 + (of_char c - 48)) cs
      else if c = CHR ''_'' \<and> prev \<and> cs \<noteq> [] \<and> is_digit (hd cs) then parse_digits False acc cs
      else None)"

definition py_int :: "string \<Rightarrow> int option" where
  "py_int s =
     (case strip s of
        [] \<Rightarrow> None
      | c # cs \<Rightarrow>
          if c = CHR ''-'' then map_option (\<lambda>n. - int n) (parse_digits False 0 cs)
          else if c = CHR ''+'' then map_option int (parse_digits False 0 cs)
          else map_option int (parse_digits False 0 (c # cs)))"

text \<open>\<^verbatim>\<open>' '.join(parts)\<close>\<close>

fun join_spaces :: "string list \<Rightarrow> string" where
  "join_spaces [] = []"
| "join_spaces [w] = w"
| "join_spaces (w # ws) = w @ '' '' @ join_spaces ws"

text \<open>The entries of the gate's two lists: a function reported by the external
  complexity tool with its score, a shell file with its number of functions, and a file
  with its number of lines.\<close>

datatype gate_complex =
    ComplexFunction string int
  | ManyFunctions string nat

record gate_long =
  gl_file :: string
  gl_lines :: nat

record complexity_part =
  files_analyzed :: nat
  complex_functions :: "gate_complex list"
  long_functions :: "gate_long list"

text \<open>One line of the tool's output in \<^verbatim>\<open>_run_python_complexity\<close>: \<^verbatim>\<open>int(parts[-1])\<close>
  raises ValueError, which the method does not catch.\<close>

definition radon_line :: "gate_complex list \<Rightarrow> string \<Rightarrow> py_error + gate_complex list" where
  "radon_line found line =
     (if strip line \<noteq> [] then
        (let parts = split_ws line in
           if length parts \<ge> 3 then
             (case py_int (last parts) of
                None \<Rightarrow> Inl (ValueError (last parts))
              | Some complexity \<Rightarrow>
                  if complexity > max_complexity
                  then Inr (found @ [ComplexFunction (join_spaces (butlast parts)) complexity])
                  else Inr found)
           else Inr found)
      else Inr found)"

text \<open>The fallback loops: a file that cannot be read is passed over
  (\<^verbatim>\<open>except: pass\<close>).\<close>

definition long_file_check :: "host \<Rightarrow> fs_entry \<Rightarrow> gate_long list" where
  "long_file_check h file =
     (case fe_read file of
        Inl e \<Rightarrow> []
      | Inr content \<Rightarrow>
          (let lines = length (split_lines content) in
             if lines > max_lines
             then [\<lparr>gl_file = path_str (host_proj h) file, gl_lines = lines\<rparr>] else []))"

text \<open>\<^verbatim>\<open>QualityGateManager._run_python_complexity\<close>\<close>

definition run_python_complexity :: "host \<Rightarrow> py_error + complexity_part" where
  "run_python_complexity h =
     (let n = length (glob_suffix (host_proj h) ''.py'') in
        case run_radon h of
          Completed returncode out err \<Rightarrow>
            if returncode = 0
            then bind_err (fold_err radon_line [] (split_lines out)) (\<lambda>found.
                   Inr \<lparr>files_analyzed = n, complex_functions = found, long_functions = []\<rparr>)
            else Inr \<lparr>files_analyzed = n, complex_functions = [], long_functions = []\<rparr>
        | FileNotFound \<Rightarrow>
            Inr \<lparr>files_analyzed = n, complex_functions = [],
                 long_functions = concat (map (long_file_check h) (glob_suffix (host_proj h) ''.py''))\<rparr>
        | Raised e \<Rightarrow> Inl e)"

definition many_functions_check :: "host \<Rightarrow> fs_entry \<Rightarrow> gate_complex list" where
  "many_functions_check h file =
     (case fe_read file of
        Inl e \<Rightarrow> []
      | Inr content \<Rightarrow>
          (let functions = count_sub content ''function '' + count_sub content ''() {'' in
             if functions > 20 then [ManyFunctions (path_str (host_proj h) file) functions]
             else []))"

text \<open>\<^verbatim>\<open>QualityGateManager._run_shell_complexity\<close>\<close>

definition run_shell_complexity :: "host \<Rightarrow> complexity_part" where
  "run_shell_complexity h =
     \<lparr>files_analyzed = length (glob_suffix (host_proj h) ''.sh''),
      complex_functions = concat (map (many_functions_check h) (glob_suffix (host_proj h) ''.sh'')),
      long_functions = concat (map (long_file_check h) (glob_suffix (host_proj h) ''.sh''))\<rparr>"

record complexity_gate_summary =
  total_complex_functions :: nat
  total_long_functions :: nat
  summary_max_complexity :: int
  summary_max_lines :: nat

record complexity_gate =
  cg_status :: string
  cg_files_analyzed :: nat
  cg_complex_functions :: "gate_complex list"
  cg_long_functions :: "gate_long list"
  cg_summary :: complexity_gate_summary

text \<open>\<^verbatim>\<open>f.get("complexity", 0)\<close>\<close>

fun entry_complexity :: "gate_complex \<Rightarrow> int" where
  "entry_complexity (ComplexFunction name complexity) = complexity"
| "entry_complexity (ManyFunctions file functions) = 0"

text \<open>\<^verbatim>\<open>max(xs, default=0)\<close>\<close>

definition max_default :: "'a::linorder list \<Rightarrow> 'a \<Rightarrow> 'a" where
  "max_default xs d = (case xs of [] \<Rightarrow> d | x # rest \<Rightarrow> fold max rest x)"

text \<open>\<^verbatim>\<open>QualityGateManager.run_complexity_analysis\<close>\<close>

definition run_complexity_analysis :: "host \<Rightarrow> py_error + complexity_gate" where
  "run_complexity_analysis h =
     bind_err (if has_python_files h then run_python_complexity h
               else Inr \<lparr>files_analyzed = 0, complex_functions = [], long_functions = []\<rparr>)
       (\<lambda>python_result.
          let shell_result =
                (if has_shell_files h then run_shell_complexity h
                 else \<lparr>files_analyzed = 0, complex_functions = [], long_functions = []\<rparr>);
              complex = complex_functions python_result @ complex_functions shell_result;
              long = long_functions python_result @ long_functions shell_result;
              max_c = max_default (map entry_complexity complex) 0;
              max_l = max_default (map gl_lines long) 0
          in Inr \<lparr>cg_status = (if max_c > max_complexity then ''failed''
                                else if max_l > max_lines then ''warning''
                                else ''passed''),
                  cg_files_analyzed = files_analyzed python_result + files_analyzed shell_result,
                  cg_complex_functions = complex, cg_long_functions = long,
                  cg_summary = \<lparr>total_complex_functions = length complex,
                                total_long_functions = length long,
                                summary_max_complexity = max_c, summary_max_lines = max_l\<rparr>\<rparr>)"


section \<open>QualityGateManager: the security gate\<close>

definition gate_buckets :: "string \<rightharpoonup> gate_entry list" where
  "gate_buckets =
     [''critical'' \<mapsto> [], ''high'' \<mapsto> [], ''medium'' \<mapsto> [], ''low'' \<mapsto> [], ''info'' \<mapsto> []]"

text \<open>One issue of the external tool in \<^verbatim>\<open>_run_security_scan\<close>: appended to the bucket
  of its lower-cased severity, when there is such a bucket.\<close>

definition add_bandit_issue :: "(string \<rightharpoonup> gate_entry list) \<Rightarrow> bandit_issue \<Rightarrow> (string \<rightharpoonup> gate_entry list)" where
  "add_bandit_issue buckets i =
     (let severity = lower (issue_severity_field i) in
        case buckets severity of
          None \<Rightarrow> buckets
        | Some found \<Rightarrow>
            buckets(severity \<mapsto> found @ [FromBandit (filename i) (line_number i) (bandit_text i)
                                             (issue_confidence i)]))"

text \<open>The basic shell checks of \<^verbatim>\<open>_run_security_scan\<close> on one file: an unreadable file is
  passed over.\<close>

definition basic_shell_issues :: "host \<Rightarrow> fs_entry \<Rightarrow> gate_entry list" where
  "basic_shell_issues h sh_file =
     (case fe_read sh_file of
        Inl e \<Rightarrow> []
      | Inr content \<Rightarrow>
          map (Basic (path_str (host_proj h) sh_file))
            ((if substr_in ''rm -rf /'' content then [''Dangerous: rm -rf /''] else [])
             @ (if substr_in ''chmod 777'' content then [''Dangerous: chmod 777''] else [])
             @ (if substr_in ''sudo'' content \<and> substr_in ''password'' (lower content)
                then [''Potential password exposure''] else [])))"

text \<open>\<^verbatim>\<open>result["vulnerabilities"]["high"].append(...)\<close>\<close>

definition append_high :: "(string \<rightharpoonup> gate_entry list) \<Rightarrow> gate_entry list \<Rightarrow> py_error + (string \<rightharpoonup> gate_entry list)" where
  "append_high buckets found =
     bind_err (dict_get buckets ''high'') (\<lambda>high. Inr (buckets(''high'' \<mapsto> high @ found)))"

text \<open>\<^verbatim>\<open>QualityGateManager._run_security_scan\<close>: the fallback scan.\<close>

definition run_security_scan :: "host \<Rightarrow> py_error + (string \<rightharpoonup> gate_entry list)" where
  "run_security_scan h =
     bind_err
       (case run_bandit h of
          Completed returncode out err \<Rightarrow>
            if returncode = 0 then
              (case bandit_json h out of
                 JSONDecodeError \<Rightarrow> Inr gate_buckets
               | BanditRaised e \<Rightarrow> Inl e
               | BanditResults issues \<Rightarrow> Inr (foldl add_bandit_issue gate_buckets issues))
            else Inr gate_buckets
        | FileNotFound \<Rightarrow>
            Inr (gate_buckets(''info'' \<mapsto>
                   [Basic ''system'' ''bandit not available for Python security scanning'']))
        | Raised e \<Rightarrow> Inl e)
       (\<lambda>buckets.
          append_high buckets
            (concat (map (basic_shell_issues h) (glob_suffix (host_proj h) ''.sh''))))"

text \<open>\<^verbatim>\<open>(self.quality_dir / "security" / "scan_security.py").exists()\<close> and its like: the
  path is listed in the project tree.\<close>

definition path_exists :: "project \<Rightarrow> string list \<Rightarrow> bool" where
  "path_exists p path = (path \<in> set (map fe_path (entries p)))"

text \<open>
  The \<^verbatim>\<open>try\<close> block of \<^verbatim>\<open>run_security_scanning\<close>, which decides the
  \<^verbatim>\<open>vulnerabilities\<close> of the result: \<open>Inl\<close> is an exception raised inside the block.
\<close>

definition security_try :: "host \<Rightarrow> py_error + (string \<rightharpoonup> gate_entry list)" where
  "security_try h =
     (if path_exists (host_proj h) [''quality-gates'', ''security'', ''scan_security.py''] then
        (case run_security_script h of
           Completed returncode out err \<Rightarrow>
             if returncode = 0 then
               (case latest_security_report h of
                  Loaded (Some vulnerabilities) \<Rightarrow> Inr vulnerabilities
                | Loaded None \<Rightarrow> Inr gate_buckets
                | NoReports \<Rightarrow> Inr gate_buckets
                | LoadFailed \<Rightarrow> Inr gate_buckets)
             else run_security_scan h
         | FileNotFound \<Rightarrow> Inl (OSError ''python'')
         | Raised e \<Rightarrow> Inl e)
      else run_security_scan h)"

record security_gate_summary =
  gate_critical_count :: nat
  gate_high_count :: nat
  gate_medium_count :: nat
  gate_low_count :: nat
  gate_info_count :: nat

record security_gate =
  sg_status :: string
  sg_vulnerabilities :: "string \<rightharpoonup> gate_entry list"
  sg_summary :: security_gate_summary

text \<open>
  \<^verbatim>\<open>QualityGateManager.run_security_scanning\<close>: an exception inside the \<^verbatim>\<open>try\<close> block
  leads to the fallback scan; the summary reads the five buckets (KeyError on a missing
  one) and the status follows from the counts.
\<close>

definition run_security_scanning :: "host \<Rightarrow> py_error + security_gate" where
  "run_security_scanning h =
     bind_err (case security_try h of
                 Inl e \<Rightarrow> run_security_scan h
               | Inr vulnerabilities \<Rightarrow> Inr vulnerabilities)
       (\<lambda>vulnerabilities.
     bind_err (dict_get vulnerabilities ''critical'') (\<lambda>critical.
     bind_err (dict_get vulnerabilities ''high'') (\<lambda>high.
     bind_err (dict_get vulnerabilities ''medium'') (\<lambda>medium.
     bind_err (dict_get vulnerabilities ''low'') (\<lambda>low.
     bind_err (dict_get vulnerabilities ''info'') (\<lambda>info.
       Inr \<lparr>sg_status = (if length critical > max_critical then ''failed''
                          else if length high > max_high then ''failed''
                          else if length medium > max_medium then ''warning''
                          else ''passed''),
            sg_vulnerabilities = vulnerabilities,
            sg_summary = \<lparr>gate_critical_count = length critical, gate_high_count = length high,
                          gate_medium_count = length medium, gate_low_count = length low,
                          gate_info_count = length info\<rparr>\<rparr>))))))"

text \<open>
  What the manager finds after a successful run of the scanner script on the project:
  the report the scanner's \<^verbatim>\<open>main\<close> has written, whose \<^verbatim>\<open>vulnerabilities\<close> entry is
  \<^verbatim>\<open>results["vulnerabilities"]\<close> of \<^verbatim>\<open>scan_all_files\<close>.
\<close>

definition report_buckets :: "scan_results \<Rightarrow> (string \<rightharpoonup> gate_entry list)" where
  "report_buckets results = (\<lambda>severity. map_option (map Scanned) (sr_vulnerabilities results severity))"

definition after_scanner_run :: "host \<Rightarrow> scan_results \<Rightarrow> host" where
  "after_scanner_run h results =
     h\<lparr>run_security_script := Completed 0 [] [],
       latest_security_report := Loaded (Some (report_buckets results))\<rparr>"


section \<open>QualityGateManager: the review gate and the whole run\<close>

text \<open>The issue lines of the four basic checks, each by its kind.\<close>

datatype check_issue =
    MissingReadme
  | LowDocstringCoverage nat nat
  | NotSnakeCase string nat string
  | MissingDirectory string
  | NeedsPackages
  | HardcodedSecret string string
  | HighTodoCount nat

record check_result =
  check_status :: string
  check_score :: int
  check_issues :: "check_issue list"

text \<open>The end of every basic check: the score is \<^verbatim>\<open>max(0, min(100, 100 + score))\<close> and
  the status follows from it.\<close>

definition finish_check :: "int \<Rightarrow> check_issue list \<Rightarrow> check_result" where
  "finish_check score issues =
     (let final = max 0 (min 100 (100 + score)) in
        \<lparr>check_status = (if final \<ge> 80 then ''passed''
                         else if final \<ge> 60 then ''warning'' else ''failed''),
         check_score = final, check_issues = issues\<rparr>)"

definition has_docstring_quotes :: "fs_entry \<Rightarrow> bool" where
  "has_docstring_quotes py_file =
     (case fe_read py_file of
        Inl e \<Rightarrow> False
      | Inr content \<Rightarrow> substr_in [dq, dq, dq] content \<or> substr_in [sq, sq, sq] content)"

text \<open>\<^verbatim>\<open>QualityGateManager._check_documentation\<close>: the ratio
  \<^verbatim>\<open>files_with_docstrings / len(python_files)\<close> is below 0.5 when twice the count is below
  the number of files.\<close>

definition check_documentation :: "host \<Rightarrow> check_result" where
  "check_documentation h =
     (let readme_files = glob_root_prefix (host_proj h) ''README'';
          python_files = glob_suffix (host_proj h) ''.py'';
          files_with_docstrings = length (filter has_docstring_quotes python_files);
          low = (python_files \<noteq> [] \<and> 2 * files_with_docstrings < length python_files)
      in finish_check ((if readme_files = [] then - 20 else 0) + (if low then - 10 else 0))
           ((if readme_files = [] then [MissingReadme] else [])
            @ (if low then [LowDocstringCoverage files_with_docstrings (length python_files)]
               else [])))"

text \<open>\<^verbatim>\<open>c.isupper()\<close> of one character below 256.\<close>

definition is_upper :: "char \<Rightarrow> bool" where
  "is_upper c =
     (let n = (of_char c :: nat) in
        (65 \<le> n \<and> n \<le> 90) \<or> (192 \<le> n \<and> n \<le> 222 \<and> n \<noteq> 215))"

text \<open>One line of \<^verbatim>\<open>_check_naming_conventions\<close>:
  \<^verbatim>\<open>line.split("def ")[1].split("(")[0].strip()\<close>, whose two indexings are in range for a
  line that contains \<^verbatim>\<open>def \<close>.\<close>

definition naming_line :: "string \<Rightarrow> nat \<times> string \<Rightarrow> check_issue list" where
  "naming_line file il =
     (case il of (i, line) \<Rightarrow>
        if substr_in ''def '' line then
          (case split_on line ''def '' of
             first # second # rest \<Rightarrow>
               (case split_on second ''('' of
                  head # tail \<Rightarrow>
                    (let parts = strip head in
                       if list_ex is_upper (drop 1 parts) then [NotSnakeCase file i parts] else [])
                | [] \<Rightarrow> [])
           | short \<Rightarrow> [])
        else [])"

definition naming_file :: "host \<Rightarrow> fs_entry \<Rightarrow> check_issue list" where
  "naming_file h py_file =
     (case fe_read py_file of
        Inl e \<Rightarrow> []
      | Inr content \<Rightarrow>
          concat (map (naming_line (path_str (host_proj h) py_file))
                    (enumerate 1 (split_lines content))))"

text \<open>\<^verbatim>\<open>QualityGateManager._check_naming_conventions\<close>\<close>

definition check_naming_conventions :: "host \<Rightarrow> check_result" where
  "check_naming_conventions h =
     (let issues = concat (map (naming_file h) (glob_suffix (host_proj h) ''.py''))
      in finish_check (- 5 * int (length issues)) issues)"

definition required_dirs :: "string list" where
  "required_dirs = [''scripts'', ''vendor'', ''tests'', ''docs'']"

text \<open>\<^verbatim>\<open>QualityGateManager._check_code_structure\<close>\<close>

definition check_code_structure :: "host \<Rightarrow> check_result" where
  "check_code_structure h =
     (let missing = filter (\<lambda>req_dir. \<not> path_exists (host_proj h) [req_dir]) required_dirs;
          python_files = glob_suffix (host_proj h) ''.py'';
          py_dirs = filter (\<lambda>parent. parent \<noteq> []) (map (\<lambda>f. butlast (fe_path f)) python_files);
          crowded = (length python_files > 10 \<and> length (remdups py_dirs) < 3)
      in finish_check (- 10 * int (length missing) + (if crowded then - 10 else 0))
           (map MissingDirectory missing @ (if crowded then [NeedsPackages] else [])))"

definition skipped_suffixes :: "string list" where
  "skipped_suffixes = [''.pyc'', ''.pyo'', ''__pycache__'']"

text \<open>The first loop of \<^verbatim>\<open>_check_best_practices\<close> on one entry: the first secret word
  found in the lower-cased text gives the issue (\<^verbatim>\<open>break\<close>).\<close>

definition secret_in_file :: "host \<Rightarrow> fs_entry \<Rightarrow> check_issue list" where
  "secret_in_file h file =
     (if fe_is_file file \<and> \<not> list_ex (endswith (entry_name file)) skipped_suffixes then
        (case fe_read file of
           Inl e \<Rightarrow> []
         | Inr text \<Rightarrow>
             (let content = lower text in
                case find (\<lambda>pattern. substr_in pattern content
                              \<and> (substr_in ''hardcoded'' content \<or> substr_in ''='' content))
                       secret_keywords of
                  None \<Rightarrow> []
                | Some pattern \<Rightarrow> [HardcodedSecret pattern (path_str (host_proj h) file)]))
      else [])"

definition todo_in_file :: "fs_entry \<Rightarrow> nat" where
  "todo_in_file file =
     (if fe_is_file file then
        (case fe_read file of Inl e \<Rightarrow> 0 | Inr content \<Rightarrow> count_sub (upper content) ''TODO'')
      else 0)"

text \<open>\<^verbatim>\<open>QualityGateManager._check_best_practices\<close>\<close>

definition check_best_practices :: "host \<Rightarrow> check_result" where
  "check_best_practices h =
     (let secrets = concat (map (secret_in_file h) (glob_all (host_proj h)));
          todo_count = sum_list (map todo_in_file (glob_all (host_proj h)))
      in finish_check (- 15 * int (length secrets) + (if todo_count > 20 then - 10 else 0))
           (secrets @ (if todo_count > 20 then [HighTodoCount todo_count] else [])))"

text \<open>The four basic checks, in the order in which the fallback fills
  \<^verbatim>\<open>result["checks"]\<close>.\<close>

definition basic_checks :: "host \<Rightarrow> (string \<times> check_result) list" where
  "basic_checks h =
     [(''documentation'', check_documentation h), (''naming'', check_naming_conventions h),
      (''structure'', check_code_structure h), (''best_practices'', check_best_practices h)]"

text \<open>
  The \<^verbatim>\<open>try\<close> block of \<^verbatim>\<open>run_code_review_checks\<close>: the score, the recommendations and the
  checks it leaves in the result. An exception inside the block leads to the basic
  checks as well.
\<close>

definition review_try :: "host \<Rightarrow> jscore \<times> string list \<times> (string \<times> check_result) list" where
  "review_try h =
     (if path_exists (host_proj h) [''quality-gates'', ''review'', ''automate_review.py''] then
        (case run_review_script h of
           Completed returncode out err \<Rightarrow>
             if returncode = 0 then
               (case latest_review_report h of
                  Loaded (score, recommendations) \<Rightarrow>
                    ((case score of None \<Rightarrow> JNumber 0 | Some v \<Rightarrow> v), recommendations, [])
                | NoReports \<Rightarrow> (JNumber 0, [], [])
                | LoadFailed \<Rightarrow> (JNumber 0, [], []))
             else (JNumber 0, [], basic_checks h)
         | FileNotFound \<Rightarrow> (JNumber 0, [], basic_checks h)
         | Raised e \<Rightarrow> (JNumber 0, [], basic_checks h))
      else (JNumber 0, [], basic_checks h))"

record review_gate =
  rg_status :: string
  rg_checks :: "(string \<times> check_result) list"
  rg_recommendations :: "string list"
  rg_score :: real

text \<open>
  \<^verbatim>\<open>QualityGateManager.run_code_review_checks\<close>: a score of 0 is replaced by the share of
  passed checks, when there are checks; comparing a score that is not a number raises
  TypeError.
\<close>

definition run_code_review_checks :: "host \<Rightarrow> py_error + review_gate" where
  "run_code_review_checks h =
     (case review_try h of (score, recommendations, checks) \<Rightarrow>
        (case (if score = JNumber 0 \<and> checks \<noteq> []
               then JNumber (real (length (filter (\<lambda>(name, check). check_status check = ''passed'')
                                             checks))
                             / real (length checks) * 100)
               else score) of
           JNotNumber \<Rightarrow> Inl (TypeError ''score'')
         | JNumber v \<Rightarrow>
             Inr \<lparr>rg_status = (if v \<ge> 90 then ''passed''
                                else if v \<ge> 75 then ''warning'' else ''failed''),
                  rg_checks = checks, rg_recommendations = recommendations, rg_score = v\<rparr>))"

record gates =
  gate_linting :: linting_gate
  gate_complexity :: complexity_gate
  gate_security :: security_gate
  gate_review :: review_gate

record gate_summary =
  total_gates :: nat
  passed_gates :: nat
  warning_gates :: nat
  failed_gates :: nat
  critical_issues :: "string list"

record quality_report =
  report_timestamp :: real
  report_gates :: gates
  report_overall_status :: string
  report_summary :: gate_summary

text \<open>The items of \<^verbatim>\<open>results["gates"]\<close>, in insertion order, each with its status.\<close>

definition gate_items :: "gates \<Rightarrow> (string \<times> string option) list" where
  "gate_items g =
     four_gates (lint_status (gate_linting g)) (cg_status (gate_complexity g))
       (sg_status (gate_security g)) (rg_status (gate_review g))"

text \<open>\<^verbatim>\<open>QualityGateManager._generate_summary\<close>\<close>

definition summary_step :: "gate_summary \<Rightarrow> string \<times> string option \<Rightarrow> gate_summary" where
  "summary_step s item =
     (case item of (gate_name, result) \<Rightarrow>
        let status = (case result of None \<Rightarrow> ''unknown'' | Some v \<Rightarrow> v);
            s1 = (if status = ''passed'' then s\<lparr>passed_gates := passed_gates s + 1\<rparr>
                  else if status = ''warning'' then s\<lparr>warning_gates := warning_gates s + 1\<rparr>
                  else if status = ''failed'' then s\<lparr>failed_gates := failed_gates s + 1\<rparr>
                  else s)
        in if status = ''failed''
           then s1\<lparr>critical_issues := critical_issues s1 @ [gate_name]\<rparr> else s1)"

definition generate_summary :: "(string \<times> string option) list \<Rightarrow> gate_summary" where
  "generate_summary gate_results =
     foldl summary_step
       \<lparr>total_gates = length gate_results, passed_gates = 0, warning_gates = 0,
        failed_gates = 0, critical_issues = []\<rparr>
       gate_results"

text \<open>
  \<^verbatim>\<open>QualityGateManager.run_all_quality_gates\<close>: the four gates in order, the overall
  status, the summary, and the write of the report file, whose failure leaves the method
  as an exception like any exception of a gate.
\<close>

definition run_all_quality_gates :: "host \<Rightarrow> py_error + quality_report" where
  "run_all_quality_gates h =
     bind_err (run_linting_checks h) (\<lambda>l.
     bind_err (run_complexity_analysis h) (\<lambda>c.
     bind_err (run_security_scanning h) (\<lambda>s.
     bind_err (run_code_review_checks h) (\<lambda>r.
       let g = \<lparr>gate_linting = l, gate_complexity = c, gate_security = s, gate_review = r\<rparr>;
           results = \<lparr>report_timestamp = clock h, report_gates = g,
                      report_overall_status = calculate_overall_status (gate_items g),
                      report_summary = generate_summary (gate_items g)\<rparr>
       in case write_error h of None \<Rightarrow> Inr results | Some e \<Rightarrow> Inl e))))"

text \<open>The three statuses a gate decides between.\<close>

definition decided_statuses :: "string list" where
  "decided_statuses = [''passed'', ''warning'', ''failed'']"


section \<open>Example hosts and projects for the manager and the scanner\<close>

text \<open>A host without any external tool, module or report, on the project without any
  file; and the buckets the fallback security scan gives on it.\<close>

definition bare_host :: host where
  "bare_host =
     \<lparr>host_proj = bare_project, run_flake8 = FileNotFound,
      run_shellcheck = FileNotFound, run_bash_n = (\<lambda>file. FileNotFound),
      run_radon = FileNotFound, run_bandit = FileNotFound,
      bandit_json = (\<lambda>out. JSONDecodeError), run_security_script = FileNotFound,
      latest_security_report = NoReports, run_review_script = FileNotFound,
      latest_review_report = NoReports, compile_source = (\<lambda>text. None), yaml_module = False,
      yaml_safe_load = (\<lambda>text. None), clock = 0, write_error = None\<rparr>"

definition bare_buckets :: "string \<rightharpoonup> gate_entry list" where
  "bare_buckets =
     [''critical'' \<mapsto> [], ''high'' \<mapsto> [], ''medium'' \<mapsto> [], ''low'' \<mapsto> [],
      ''info'' \<mapsto> [Basic ''system'' ''bandit not available for Python security scanning'']]"

text \<open>
  A project for the security scan: the shell script \<^verbatim>\<open>deploy.sh\<close> whose only line is
  \<^verbatim>\<open>rm -rf /tmp/cache\<close>, and the scanner script itself (with any text) in
  \<^verbatim>\<open>quality-gates/security\<close>, where the manager looks for it; \<open>rm_entry\<close> is the entry
  the scanner gives for line 1 of the shell script.
\<close>

definition rm_entry :: vuln where
  "rm_entry =
     \<lparr>vuln_file = ''/repo/deploy.sh'', vuln_line = 1, vuln_severity = ''critical'',
      vuln_issue = ''Dangerous rm command'', vuln_code = Some ''rm -rf /tmp/cache'',
      vuln_recommendation = ''Never use rm -rf / - specify exact paths''\<rparr>"

definition deploy_sh :: fs_entry where
  "deploy_sh =
     \<lparr>fe_path = [''deploy.sh''], fe_is_file = True, fe_read = Inr ''rm -rf /tmp/cache'',
      fe_stat = Some (33261, 17)\<rparr>"

definition rm_project :: "string \<Rightarrow> project" where
  "rm_project script_text =
     \<lparr>project_root = ''/repo'',
      entries =
        [deploy_sh,
         \<lparr>fe_path = [''quality-gates''], fe_is_file = False, fe_read = Inl ''Is a directory'',
          fe_stat = Some (16877, 4096)\<rparr>,
         \<lparr>fe_path = [''quality-gates'', ''security''], fe_is_file = False,
          fe_read = Inl ''Is a directory'', fe_stat = Some (16877, 4096)\<rparr>,
         \<lparr>fe_path = [''quality-gates'', ''security'', ''scan_security.py''], fe_is_file = True,
          fe_read = Inr script_text, fe_stat = Some (33188, length script_text)\<rparr>]\<rparr>"

text \<open>The languages of a security report, and the summary of a scanner with empty
  buckets.\<close>

definition scan_languages :: "pylib \<Rightarrow> project \<Rightarrow> (string \<times> scan_language) list" where
  "scan_languages lib proj =
     language_item ''python'' (scan_python_files lib proj)
     @ language_item ''shell'' (scan_shell_scripts lib proj)
     @ language_item ''config'' (scan_config_files proj)
     @ language_item ''general'' (scan_general_security proj)"

definition zero_scan_summary :: scan_summary where
  "zero_scan_summary =
     \<lparr>total_vulnerabilities = 0, critical_count = 0, high_count = 0, medium_count = 0,
      low_count = 0, info_count = 0\<rparr>"


section \<open>Notions and examples for parse errors\<close>






section \<open>Notions and examples for repeated runs\<close>

text \<open>An entry and a project without their metadata (\<^verbatim>\<open>is_file\<close> and \<^verbatim>\<open>stat\<close>), and
  what a project gives by paths and contents alone: the root and, in listing order, each
  path with what reading it gives.\<close>

definition strip_meta :: "fs_entry \<Rightarrow> fs_entry" where
  "strip_meta e = \<lparr>fe_path = fe_path e, fe_is_file = True, fe_read = fe_read e, fe_stat = None\<rparr>"

definition strip_project :: "project \<Rightarrow> project" where
  "strip_project p = \<lparr>project_root = project_root p, entries = map strip_meta (entries p)\<rparr>"






text \<open>The host without tools on a project that holds the shell script alone, so that the
  manager does not find the scanner script.\<close>

definition shell_only_host :: host where
  "shell_only_host = bare_host\<lparr>host_proj := \<lparr>project_root = ''/repo'', entries = [deploy_sh]\<rparr>\<rparr>"


section \<open>A file of exactly 300 lines\<close>

text \<open>
  A Python file of 300 lines, each the statement \<^verbatim>\<open>x\<close> followed by a newline, as the only
  entry of a project. Its module has 300 expression statements and no function or class;
  \<^verbatim>\<open>ast.parse\<close> is fixed on this content only.
\<close>

definition long_source :: string where
  "long_source = concat (replicate 300 ''x\<newline>'')"

definition long_tree :: py_ast where
  "long_tree = Other (replicate 300 (Other []))"

definition long_lib :: pylib where
  "long_lib =
     \<lparr>re_search = (\<lambda>p ic s. False), re_match = (\<lambda>p s. None), re_findall = (\<lambda>p s. []),
      ast_parse = (\<lambda>content. if content = long_source then Parsed long_tree
                               else SyntaxError (Some 1) ''invalid syntax'')\<rparr>"

definition long_py :: fs_entry where
  "long_py = \<lparr>fe_path = [''long.py''], fe_is_file = True, fe_read = Inr long_source,
              fe_stat = Some (33188, 600)\<rparr>"

definition long_project :: project where
  "long_project = \<lparr>project_root = ''/repo'', entries = [long_py]\<rparr>"


section \<open>Evaluation of the string operations on literals\<close>

lemma count_sub_Nil [simp]: "count_sub [] (c # p) = 0"
  by (simp add: count_sub.simps)

lemma count_sub_Cons [simp]:
  "count_sub (x # s) (c # p) =
     (if startswith (x # s) (c # p) then 1 + count_sub (drop (length p) s) (c # p)
      else count_sub s (c # p))"
  by (subst count_sub.simps) simp

lemma startswith_Nil [simp]: "startswith s []"
  by (simp add: startswith_def)

lemma startswith_Nil_left [simp]: "startswith [] (c # p) = False"
  by (simp add: startswith_def)

lemma startswith_Cons [simp]: "startswith (x # s) (c # p) = (x = c \<and> startswith s p)"
  by (auto simp: startswith_def)


section \<open>The cyclomatic score\<close>

lemma cyclomatic_line_add: "cyclomatic_line c raw = c + line_contribution raw"
  by (simp add: cyclomatic_line_def line_contribution_def Let_def)

lemma cyclomatic_loop_sum:
  "cyclomatic_loop c lines = c + (\<Sum>raw \<leftarrow> lines. line_contribution raw)"
  by (induction lines arbitrary: c) (simp_all add: cyclomatic_line_add)

text \<open>
  C6 (as the specification states it, refuted): the score is not one per occurrence of a
  branching keyword or operator. On the single line \<^verbatim>\<open>if a && b:\<close>, which holds an
  occurrence of \<^verbatim>\<open>if \<close> and an occurrence of \<^verbatim>\<open>&&\<close>, the code returns 2 (the line adds 1),
  where counting occurrences gives 3 (the line adds 2).
\<close>

theorem cyclomatic_two_keywords_one_line:
  "calculate_cyclomatic_complexity [''if a && b:''] = 2
   \<and> spec_cyclomatic_complexity [''if a && b:''] = 3"
  by (simp add: calculate_cyclomatic_complexity_def cyclomatic_line_def
      spec_cyclomatic_complexity_def spec_branch_tokens_def control_flow_keywords_def
      strip_def is_space_def Let_def)

text \<open>
  C6 (amended): the score is 1 plus, for every line (stripped of surrounding white space),
  1 if the line contains at least one of the keywords \<^verbatim>\<open>if \<close>, \<^verbatim>\<open>elif \<close>, \<^verbatim>\<open>for \<close>,
  \<^verbatim>\<open>while \<close>, \<^verbatim>\<open>case \<close>, \<^verbatim>\<open>&&\<close>, \<^verbatim>\<open>||\<close> (however many of them, however often), plus 1
  if it contains \<^verbatim>\<open>except \<close>, plus the number of occurrences of \<^verbatim>\<open> and \<close> and of
  \<^verbatim>\<open> or \<close>.
\<close>

theorem calculate_cyclomatic_complexity_per_line:
  "calculate_cyclomatic_complexity lines = 1 + (\<Sum>raw \<leftarrow> lines. line_contribution raw)"
  by (simp add: calculate_cyclomatic_complexity_def cyclomatic_loop_sum)

section \<open>First match wins in the Python line check\<close>

lemma find_first_of_filter: "find P xs = first_of (filter P xs)"
  by (induction xs) (simp_all add: first_of_def)

lemma first_of_append:
  "first_of (xs @ ys) = (case first_of xs of None \<Rightarrow> first_of ys | Some x \<Rightarrow> Some x)"
  by (cases xs) (simp_all add: first_of_def)

lemma first_of_map: "first_of (map f xs) = map_option f (first_of xs)"
  by (cases xs) (simp_all add: first_of_def)

text \<open>
  C7: \<^verbatim>\<open>_check_python_vulnerability\<close> returns at most one entry for a line (its result is
  an optional entry), and that entry is the first of the entries all matching patterns
  would give in the fixed order of the checks (dangerous calls in dictionary order, then
  secret expressions, then SQL expressions, then path traversal): every later match is
  dropped. This holds for every regular-expression matcher.
\<close>

theorem check_python_vulnerability_first_match:
  "check_python_vulnerability search line line_num file_path
     = first_of (python_line_matches search line line_num file_path)"
  by (simp add: check_python_vulnerability_def python_line_matches_def find_first_of_filter
      first_of_append first_of_map split: option.splits)
    (simp add: first_of_def)


section \<open>Precedence of the overall status\<close>

text \<open>
  C1: for the four gates with statuses among passed, warning, failed and unknown, the
  overall status is failed if a gate failed, else warning if a gate warned, else passed
  if all four passed, else unknown; in particular it is failed whenever a gate is.
\<close>

theorem calculate_overall_status_precedence:
  assumes "l \<in> set gate_status_values" and "c \<in> set gate_status_values"
    and "s \<in> set gate_status_values" and "r \<in> set gate_status_values"
  shows "calculate_overall_status (four_gates l c s r) =
           (if ''failed'' \<in> {l, c, s, r} then ''failed''
            else if ''warning'' \<in> {l, c, s, r} then ''warning''
            else if l = ''passed'' \<and> c = ''passed'' \<and> s = ''passed'' \<and> r = ''passed''
              then ''passed''
            else ''unknown'')
         \<and> (''failed'' \<in> {l, c, s, r} \<longrightarrow>
              calculate_overall_status (four_gates l c s r) = ''failed'')"
  by (auto simp: calculate_overall_status_def four_gates_def)

theorem calculate_overall_status_precedence_witness:
  "calculate_overall_status (four_gates ''passed'' ''warning'' ''failed'' ''unknown'') = ''failed''
   \<and> calculate_overall_status (four_gates ''passed'' ''warning'' ''passed'' ''unknown'') = ''warning''
   \<and> calculate_overall_status (four_gates ''passed'' ''passed'' ''passed'' ''passed'') = ''passed''
   \<and> calculate_overall_status (four_gates ''passed'' ''unknown'' ''passed'' ''passed'') = ''unknown''"
proof -
  have m: "''passed'' \<in> set gate_status_values" "''warning'' \<in> set gate_status_values"
    "''failed'' \<in> set gate_status_values" "''unknown'' \<in> set gate_status_values"
    by (simp_all add: gate_status_values_def)
  show ?thesis
    using calculate_overall_status_precedence [OF m(1) m(2) m(3) m(4)]
      calculate_overall_status_precedence [OF m(1) m(2) m(1) m(4)]
      calculate_overall_status_precedence [OF m(1) m(1) m(1) m(1)]
      calculate_overall_status_precedence [OF m(1) m(4) m(1) m(1)]
    by simp
qed


section \<open>The sizing checks flag above the threshold only\<close>

lemma analyze_python_file_name:
  "analyze_python_file lib proj e = Inr fr \<Longrightarrow> fi_file fr = path_str proj e"
  by (auto simp: analyze_python_file_def Let_def split: sum.splits parse_result.splits)

lemma python_file_step_consistent:
  assumes "report_consistent th r"
  shows "report_consistent th (python_file_step lib th proj r e)"
proof (cases "analyze_python_file lib proj e")
  case (Inl m)
  then show ?thesis using assms by (simp add: python_file_step_def)
next
  case (Inr fr)
  have n: "fi_file fr = path_str proj e" using Inr by (rule analyze_python_file_name)
  show ?thesis
    using assms n
    unfolding report_consistent_def python_file_step_def Inr
    by simp
qed

lemma foldl_python_consistent:
  "report_consistent th r \<Longrightarrow> report_consistent th (foldl (python_file_step lib th proj) r es)"
  by (induction es arbitrary: r) (simp_all add: python_file_step_consistent)

lemma empty_report_consistent: "report_consistent th (empty_report n)"
  by (simp add: report_consistent_def empty_report_def)

lemma analyze_python_files_consistent:
  "analyze_python_files lib th proj = Some r \<Longrightarrow> report_consistent th r"
  by (auto simp: analyze_python_files_def Let_def foldl_python_consistent
      empty_report_consistent split: if_splits)

text \<open>
  The comparisons are strict on the measures the analyzer computes: in the report of
  \<^verbatim>\<open>analyze_python_files\<close> under the thresholds of \<^verbatim>\<open>__init__\<close>, the
  \<^verbatim>\<open>complex_functions\<close> entries are exactly those of the functions whose score is strictly
  above 10, the \<^verbatim>\<open>long_functions\<close> entries those of the functions whose line span is
  strictly above 50, and the \<^verbatim>\<open>long_files\<close> entries those of the files whose
  \<^verbatim>\<open>total_lines\<close> is strictly above 300. Here \<^verbatim>\<open>total_lines\<close> is the length of
  \<^verbatim>\<open>content.split('\n')\<close>, which is not the number of lines of a file that ends with a
  newline (see the section on a file of exactly 300 lines).
\<close>

theorem sizing_checks_strict:
  assumes "analyze_python_files lib analyzer_thresholds proj = Some r"
  shows "lr_complex_functions r
           = concat (map (\<lambda>fr. map (\<lambda>func. \<lparr>cf_file = fi_file fr, cf_function = fm_name func,
                                              cf_complexity = get_complexity func,
                                              cf_line = fm_line func\<rparr>)
                                 (filter (\<lambda>func. 10 < get_complexity func) (fi_functions fr)))
                         (lr_files r))
         \<and> lr_long_functions r
           = concat (map (\<lambda>fr. map (\<lambda>func. \<lparr>lf_file = fi_file fr, lf_function = fm_name func,
                                              lf_lines = fm_lines func, lf_line = fm_line func\<rparr>)
                                 (filter (\<lambda>func. 50 < fm_lines func) (fi_functions fr)))
                         (lr_files r))
         \<and> lr_long_files r
           = map (\<lambda>fr. \<lparr>lg_file = fi_file fr, lg_lines = fi_total_lines fr\<rparr>)
               (filter (\<lambda>fr. 300 < fi_total_lines fr) (lr_files r))
         \<and> (\<forall>e \<in> set (lr_complex_functions r). 10 < cf_complexity e)
         \<and> (\<forall>e \<in> set (lr_long_functions r). 50 < lf_lines e)
         \<and> (\<forall>e \<in> set (lr_long_files r). 300 < lg_lines e)"
proof -
  have c: "report_consistent analyzer_thresholds r"
    using assms by (rule analyze_python_files_consistent)
  have lf: "concat (map (\<lambda>fr. long_file_entries analyzer_thresholds (fi_file fr) fr) fs)
              = map (\<lambda>fr. \<lparr>lg_file = fi_file fr, lg_lines = fi_total_lines fr\<rparr>)
                  (filter (\<lambda>fr. 300 < fi_total_lines fr) fs)" for fs
    by (induction fs) (simp_all add: long_file_entries_def analyzer_thresholds_def)
  have e1: "lr_complex_functions r
           = concat (map (\<lambda>fr. map (\<lambda>func. \<lparr>cf_file = fi_file fr, cf_function = fm_name func,
                                              cf_complexity = get_complexity func,
                                              cf_line = fm_line func\<rparr>)
                                 (filter (\<lambda>func. 10 < get_complexity func) (fi_functions fr)))
                         (lr_files r))"
    using c by (simp add: report_consistent_def complex_entries_def analyzer_thresholds_def)
  have e2: "lr_long_functions r
           = concat (map (\<lambda>fr. map (\<lambda>func. \<lparr>lf_file = fi_file fr, lf_function = fm_name func,
                                              lf_lines = fm_lines func, lf_line = fm_line func\<rparr>)
                                 (filter (\<lambda>func. 50 < fm_lines func) (fi_functions fr)))
                         (lr_files r))"
    using c by (simp add: report_consistent_def long_entries_def analyzer_thresholds_def)
  have e3: "lr_long_files r
           = map (\<lambda>fr. \<lparr>lg_file = fi_file fr, lg_lines = fi_total_lines fr\<rparr>)
               (filter (\<lambda>fr. 300 < fi_total_lines fr) (lr_files r))"
    using c by (simp add: report_consistent_def lf)
  have b1: "\<forall>e \<in> set (lr_complex_functions r). 10 < cf_complexity e"
    by (subst e1) auto
  have b2: "\<forall>e \<in> set (lr_long_functions r). 50 < lf_lines e"
    by (subst e2) auto
  have b3: "\<forall>e \<in> set (lr_long_files r). 300 < lg_lines e"
    by (subst e3) auto
  show ?thesis using e1 e2 e3 b1 b2 b3 by blast
qed

lemma example_lines: "split_lines example_source = [example_f_line, example_g_line]"
  by code_simp

lemma example_f_complexity: "calculate_cyclomatic_complexity [example_f_line] = 11"
  by code_simp

lemma example_g_complexity: "calculate_cyclomatic_complexity [example_g_line] = 10"
  by code_simp

lemma example_walk:
  "ast_walk example_tree
     = [Other [FunctionDef ''f'' 1 (Some 1) 1 False [Other []],
               FunctionDef ''g'' 2 (Some 2) 1 False [Other []]],
        FunctionDef ''f'' 1 (Some 1) 1 False [Other []],
        FunctionDef ''g'' 2 (Some 2) 1 False [Other []], Other [], Other []]"
  by (simp add: ast_walk_def example_tree_def)

lemma example_path: "path_str example_project example_entry = ''/repo/app.py''"
  by (simp add: path_str_def example_project_def example_entry_def)

lemma example_read: "fe_read example_entry = Inr example_source"
  by (simp add: example_entry_def)

lemma example_file:
  "analyze_python_file example_lib example_project example_entry = Inr example_file_result"
  by (simp add: analyze_python_file_def example_read example_lib_def example_lines
      example_walk analyze_python_function_def py_slice_def
      example_f_complexity example_g_complexity example_path
      example_file_result_def)

lemma example_glob: "glob_suffix example_project ''.py'' = [example_entry]"
  by (simp add: glob_suffix_def example_project_def example_entry_def entry_name_def endswith_def)

lemma example_run:
  "analyze_python_files example_lib analyzer_thresholds example_project = Some example_report"
  by (simp add: analyze_python_files_def example_glob python_file_step_def example_file
      empty_report_def example_report_def complex_entries_def long_entries_def
      long_file_entries_def example_file_result_def analyzer_thresholds_def get_complexity_def
      example_path)

theorem sizing_checks_strict_witness:
  "analyze_python_files example_lib analyzer_thresholds example_project = Some example_report
   \<and> map get_complexity (fi_functions example_file_result) = [11, 10]
   \<and> map cf_function (lr_complex_functions example_report) = [''f'']
   \<and> lr_long_functions example_report = [] \<and> lr_long_files example_report = []"
  using sizing_checks_strict [OF example_run]
  by (simp add: example_run example_report_def example_file_result_def get_complexity_def)


section \<open>The review score\<close>

lemma summary_closed:
  assumes "cra_issues self ''style'' = Some a" "cra_issues self ''logic'' = Some b"
    "cra_issues self ''security'' = Some c" "cra_issues self ''performance'' = Some d"
    "cra_issues self ''maintainability'' = Some e"
  shows "review_calculate_summary self =
           Inr [''total_issues'' \<mapsto> length a + length b + length c + length d + length e,
                ''style_count'' \<mapsto> length a, ''logic_count'' \<mapsto> length b,
                ''security_count'' \<mapsto> length c, ''performance_count'' \<mapsto> length d,
                ''maintainability_count'' \<mapsto> length e]"
  using assms
  by (simp add: review_calculate_summary_def categories_def initial_summary_def dict_get_def
      bind_err_def fun_eq_iff)

lemma score_closed:
  assumes "cra_issues self ''style'' = Some a" "cra_issues self ''logic'' = Some b"
    "cra_issues self ''security'' = Some c" "cra_issues self ''performance'' = Some d"
    "cra_issues self ''maintainability'' = Some e"
  shows "calculate_score self =
           Inr (max 0 (100 - min (int (length a) * 1) 20 - min (int (length b) * 5) 20
                        - min (int (length c) * 10) 20 - min (int (length d) * 3) 20
                        - min (int (length e) * 2) 20))"
  by (simp add: calculate_score_def summary_closed [OF assms] deductions_def dict_get_def
      bind_err_def)

lemma summary_needs_categories:
  assumes "review_calculate_summary self = Inr summary"
  shows "\<exists>a b c d e. cra_issues self ''style'' = Some a \<and> cra_issues self ''logic'' = Some b
           \<and> cra_issues self ''security'' = Some c \<and> cra_issues self ''performance'' = Some d
           \<and> cra_issues self ''maintainability'' = Some e"
  using assms
  by (simp add: review_calculate_summary_def categories_def dict_get_def
      bind_err_def split: option.splits sum.splits)

lemma score_needs_categories:
  assumes "calculate_score self = Inr s"
  shows "\<exists>a b c d e. cra_issues self ''style'' = Some a \<and> cra_issues self ''logic'' = Some b
           \<and> cra_issues self ''security'' = Some c \<and> cra_issues self ''performance'' = Some d
           \<and> cra_issues self ''maintainability'' = Some e"
proof (cases "review_calculate_summary self")
  case (Inl err)
  then show ?thesis using assms by (simp add: calculate_score_def bind_err_def)
next
  case (Inr summary)
  then show ?thesis by (rule summary_needs_categories)
qed

lemma penalty_mono: "0 \<le> w \<Longrightarrow> penalty found w \<le> penalty (found @ [f]) w"
  by (simp add: penalty_def min_le_iff_disj mult_right_mono distrib_right)

lemma floor_mono:
  "p \<le> p' \<Longrightarrow> max (0::int) (100 - p') \<le> max 0 (100 - p)"
  by simp

lemma score_penalties:
  assumes "cra_issues self ''style'' = Some a" "cra_issues self ''logic'' = Some b"
    "cra_issues self ''security'' = Some c" "cra_issues self ''performance'' = Some d"
    "cra_issues self ''maintainability'' = Some e"
  shows "calculate_score self =
           Inr (max 0 (100 - (penalty a 1 + penalty b 5 + penalty c 10 + penalty d 3
                              + penalty e 2)))"
  by (simp add: score_closed [OF assms] penalty_def algebra_simps)

text \<open>
  C4: whenever \<^verbatim>\<open>_calculate_score\<close> returns a score for the issues a reviewer holds, it
  returns one for the same issues extended by one more issue of any of the five
  categories, and that score is not greater.
\<close>

theorem calculate_score_monotone:
  assumes "calculate_score self = Inr s" and "category \<in> set categories"
  shows "\<exists>s'. calculate_score (extend_issues self category f) = Inr s' \<and> s' \<le> s"
proof -
  obtain a b c d e where h: "cra_issues self ''style'' = Some a"
    "cra_issues self ''logic'' = Some b" "cra_issues self ''security'' = Some c"
    "cra_issues self ''performance'' = Some d" "cra_issues self ''maintainability'' = Some e"
    using score_needs_categories [OF assms(1)] by blast
  have s: "s = max 0 (100 - (penalty a 1 + penalty b 5 + penalty c 10 + penalty d 3
                              + penalty e 2))"
    using assms(1) score_penalties [OF h] by simp
  consider "category = ''style''" | "category = ''logic''" | "category = ''security''"
    | "category = ''performance''" | "category = ''maintainability''"
    using assms(2) unfolding categories_def by fastforce
  then show ?thesis
  proof cases
    case 1
    have "calculate_score (extend_issues self category f) =
            Inr (max 0 (100 - (penalty (a @ [f]) 1 + penalty b 5 + penalty c 10 + penalty d 3 + penalty e 2)))"
      by (rule score_penalties) (simp_all add: extend_issues_def 1 h)
    moreover have "max 0 (100 - (penalty (a @ [f]) 1 + penalty b 5 + penalty c 10 + penalty d 3 + penalty e 2)) \<le> s"
      unfolding s using penalty_mono [of 1 a f] by (intro floor_mono) simp
    ultimately show ?thesis by blast
  next
    case 2
    have "calculate_score (extend_issues self category f) =
            Inr (max 0 (100 - (penalty a 1 + penalty (b @ [f]) 5 + penalty c 10 + penalty d 3 + penalty e 2)))"
      by (rule score_penalties) (simp_all add: extend_issues_def 2 h)
    moreover have "max 0 (100 - (penalty a 1 + penalty (b @ [f]) 5 + penalty c 10 + penalty d 3 + penalty e 2)) \<le> s"
      unfolding s using penalty_mono [of 5 b f] by (intro floor_mono) simp
    ultimately show ?thesis by blast
  next
    case 3
    have "calculate_score (extend_issues self category f) =
            Inr (max 0 (100 - (penalty a 1 + penalty b 5 + penalty (c @ [f]) 10 + penalty d 3 + penalty e 2)))"
      by (rule score_penalties) (simp_all add: extend_issues_def 3 h)
    moreover have "max 0 (100 - (penalty a 1 + penalty b 5 + penalty (c @ [f]) 10 + penalty d 3 + penalty e 2)) \<le> s"
      unfolding s using penalty_mono [of 10 c f] by (intro floor_mono) simp
    ultimately show ?thesis by blast
  next
    case 4
    have "calculate_score (extend_issues self category f) =
            Inr (max 0 (100 - (penalty a 1 + penalty b 5 + penalty c 10 + penalty (d @ [f]) 3 + penalty e 2)))"
      by (rule score_penalties) (simp_all add: extend_issues_def 4 h)
    moreover have "max 0 (100 - (penalty a 1 + penalty b 5 + penalty c 10 + penalty (d @ [f]) 3 + penalty e 2)) \<le> s"
      unfolding s using penalty_mono [of 3 d f] by (intro floor_mono) simp
    ultimately show ?thesis by blast
  next
    case 5
    have "calculate_score (extend_issues self category f) =
            Inr (max 0 (100 - (penalty a 1 + penalty b 5 + penalty c 10 + penalty d 3 + penalty (e @ [f]) 2)))"
      by (rule score_penalties) (simp_all add: extend_issues_def 5 h)
    moreover have "max 0 (100 - (penalty a 1 + penalty b 5 + penalty c 10 + penalty d 3 + penalty (e @ [f]) 2)) \<le> s"
      unfolding s using penalty_mono [of 2 e f] by (intro floor_mono) simp
    ultimately show ?thesis by blast
  qed
qed

lemma init_score: "calculate_score CodeReviewAutomator_init = Inr 100"
  by (simp add: score_closed [of _ "[]" "[]" "[]" "[]" "[]"] CodeReviewAutomator_init_def
      empty_issues_def)

lemma extended_score:
  "calculate_score (extend_issues CodeReviewAutomator_init ''logic'' example_issue) = Inr 95"
  by (simp add: score_closed [of _ "[]" "[example_issue]" "[]" "[]" "[]"] extend_issues_def
      CodeReviewAutomator_init_def empty_issues_def)

theorem calculate_score_monotone_witness:
  "calculate_score CodeReviewAutomator_init = Inr 100
   \<and> ''logic'' \<in> set categories
   \<and> calculate_score (extend_issues CodeReviewAutomator_init ''logic'' example_issue) = Inr 95
   \<and> (95::int) \<le> 100"
proof -
  have c: "''logic'' \<in> set categories" by (simp add: categories_def)
  from calculate_score_monotone [OF init_score c, of example_issue]
  obtain s' where "calculate_score (extend_issues CodeReviewAutomator_init ''logic'' example_issue) = Inr s'"
    and "s' \<le> 100" by blast
  then show ?thesis using init_score extended_score c by simp
qed

lemma init_summary: "review_calculate_summary CodeReviewAutomator_init = Inr zero_summary"
  by (simp add: summary_closed [of _ "[]" "[]" "[]" "[]" "[]"] CodeReviewAutomator_init_def
      empty_issues_def zero_summary_def)

lemma init_recommendations:
  "review_generate_recommendations CodeReviewAutomator_init =
     Inr [ExcellentQuality, AddDocstrings, CoverByUnitTests, RunTestsBeforeCommit,
          ConsiderCodeReviews]"
  unfolding review_generate_recommendations_def init_summary init_score
  by (simp add: bind_err_def dict_get_def zero_summary_def)

lemma run_full_review_init:
  "fst (run_full_review lib proj CodeReviewAutomator_init) =
     Inr \<lparr>rr_issues = empty_issues, rr_summary = zero_summary,
          rr_languages = review_languages lib proj,
          rr_recommendations = [ExcellentQuality, AddDocstrings, CoverByUnitTests,
                                RunTestsBeforeCommit, ConsiderCodeReviews],
          rr_score = 100\<rparr>"
  unfolding run_full_review_def init_summary init_score init_recommendations
  by (simp add: bind_err_def Let_def review_languages_def CodeReviewAutomator_init_def)

text \<open>The score of a fresh reviewer is 100 for every project and every library.\<close>

lemma run_full_review_score_always_100:
  "\<exists>r. fst (run_full_review lib proj CodeReviewAutomator_init) = Inr r \<and> rr_score r = 100"
  by (simp add: run_full_review_init)

lemma bare_languages:
  "review_languages lib bare_project
     = [(''documentation'', \<lparr>rl_files_reviewed = None, rl_issues = [missing_readme]\<rparr>)]"
  by (simp add: review_languages_def language_item_def
      review_python_files_def review_shell_scripts_def review_config_files_def
      review_documentation_def glob_suffix_def glob_prefix_def bare_project_def
      config_suffixes_def missing_readme_def)

lemma spec_score_missing_readme: "spec_score [missing_readme] = 98"
  by (simp add: spec_score_def deductions_def count_category_def missing_readme_def)

text \<open>
  C3 (the code departs from the claim): on a project without any file, for every library,
  \<^verbatim>\<open>run_full_review\<close> of a fresh reviewer emits exactly one issue, the missing README of
  category maintainability, for which the score described is 100 - 2 = 98; the score
  returned is 100. The issues found are stored under \<^verbatim>\<open>results["languages"]\<close> and never
  added to \<^verbatim>\<open>self.issues\<close>, which is all that \<^verbatim>\<open>_calculate_summary\<close> counts.
\<close>

theorem run_full_review_ignores_findings:
  "\<exists>r. fst (run_full_review lib bare_project CodeReviewAutomator_init) = Inr r
        \<and> review_findings r = [missing_readme]
        \<and> spec_score (review_findings r) = 98
        \<and> rr_score r = 100"
  by (simp add: run_full_review_init bare_languages review_findings_def
      spec_score_missing_readme)


section \<open>Every gate decides its status\<close>

lemma three_way_decided:
  "(if a then ''failed'' else if b then ''warning'' else ''passed'') \<in> set decided_statuses"
  by (simp add: decided_statuses_def)

lemma security_way_decided:
  "(if a then ''failed'' else if b then ''failed'' else if c then ''warning'' else ''passed'')
     \<in> set decided_statuses"
  by (simp add: decided_statuses_def)

lemma review_way_decided:
  "(if a then ''passed'' else if b then ''warning'' else ''failed'') \<in> set decided_statuses"
  by (simp add: decided_statuses_def)

lemma run_linting_checks_decided:
  "run_linting_checks h = Inr l \<Longrightarrow> lint_status l \<in> set decided_statuses"
  by (auto simp: run_linting_checks_def bind_err_def Let_def three_way_decided
      split: sum.splits split del: if_split)

lemma run_complexity_analysis_decided:
  "run_complexity_analysis h = Inr c \<Longrightarrow> cg_status c \<in> set decided_statuses"
  by (auto simp: run_complexity_analysis_def bind_err_def Let_def three_way_decided
      split: sum.splits split del: if_split)

lemma run_security_scanning_decided:
  "run_security_scanning h = Inr s \<Longrightarrow> sg_status s \<in> set decided_statuses"
  unfolding run_security_scanning_def bind_err_def
  by (auto simp: security_way_decided split: sum.splits split del: if_split)

lemma run_code_review_checks_decided:
  "run_code_review_checks h = Inr r \<Longrightarrow> rg_status r \<in> set decided_statuses"
  unfolding run_code_review_checks_def
  by (auto simp: review_way_decided split: prod.splits jscore.splits split del: if_split)

lemma overall_decided:
  assumes "l \<in> set decided_statuses" "c \<in> set decided_statuses"
    "s \<in> set decided_statuses" "r \<in> set decided_statuses"
  shows "calculate_overall_status (four_gates l c s r) \<in> set decided_statuses"
  using assms by (auto simp: calculate_overall_status_def four_gates_def decided_statuses_def)

text \<open>
  C10: when \<^verbatim>\<open>run_all_quality_gates\<close> completes, the status of each of the four gates is
  passed, warning or failed (every gate method ends in an if/elif/else chain that assigns
  one of the three), and so is the overall status of the report, which is therefore never
  unknown.
\<close>

theorem run_all_quality_gates_decided:
  assumes "run_all_quality_gates h = Inr report"
  shows "lint_status (gate_linting (report_gates report)) \<in> set decided_statuses
         \<and> cg_status (gate_complexity (report_gates report)) \<in> set decided_statuses
         \<and> sg_status (gate_security (report_gates report)) \<in> set decided_statuses
         \<and> rg_status (gate_review (report_gates report)) \<in> set decided_statuses
         \<and> report_overall_status report \<in> set decided_statuses
         \<and> report_overall_status report \<noteq> ''unknown''"
proof -
  obtain l where l: "run_linting_checks h = Inr l"
    using assms by (cases "run_linting_checks h") (simp_all add: run_all_quality_gates_def bind_err_def)
  obtain c where c: "run_complexity_analysis h = Inr c"
    using assms l
    by (cases "run_complexity_analysis h") (simp_all add: run_all_quality_gates_def bind_err_def)
  obtain s where s: "run_security_scanning h = Inr s"
    using assms l c
    by (cases "run_security_scanning h") (simp_all add: run_all_quality_gates_def bind_err_def)
  obtain r where r: "run_code_review_checks h = Inr r"
    using assms l c s
    by (cases "run_code_review_checks h") (simp_all add: run_all_quality_gates_def bind_err_def)
  have g: "report_gates report
             = \<lparr>gate_linting = l, gate_complexity = c, gate_security = s, gate_review = r\<rparr>"
    and o: "report_overall_status report
             = calculate_overall_status (four_gates (lint_status l) (cg_status c) (sg_status s)
                 (rg_status r))"
    using assms l c s r
    by (auto simp: run_all_quality_gates_def bind_err_def Let_def gate_items_def
        split: option.splits)
  have dl: "lint_status l \<in> set decided_statuses" using l by (rule run_linting_checks_decided)
  have dc: "cg_status c \<in> set decided_statuses" using c by (rule run_complexity_analysis_decided)
  have ds: "sg_status s \<in> set decided_statuses" using s by (rule run_security_scanning_decided)
  have dr: "rg_status r \<in> set decided_statuses" using r by (rule run_code_review_checks_decided)
  have d: "report_overall_status report \<in> set decided_statuses"
    unfolding o using dl dc ds dr by (rule overall_decided)
  have "report_overall_status report \<noteq> ''unknown''"
    using d by (auto simp: decided_statuses_def)
  then show ?thesis using g dl dc ds dr d by simp
qed

lemma bare_globs [simp]:
  "glob_suffix (host_proj bare_host) suffix = []" "glob_all (host_proj bare_host) = []"
  "glob_root_prefix (host_proj bare_host) prefix = []"
  "path_exists (host_proj bare_host) path = False"
  by (simp_all add: bare_host_def bare_project_def glob_suffix_def glob_all_def
      glob_root_prefix_def path_exists_def)

lemma bare_linting:
  "run_linting_checks bare_host =
     Inr \<lparr>lint_status = ''passed'', lint_languages = [], total_errors = 0, total_warnings = 0\<rparr>"
  by (simp add: run_linting_checks_def lint_language_def has_python_files_def
      has_shell_files_def has_yaml_files_def bind_err_def max_errors_def max_warnings_def)

lemma bare_complexity:
  "\<exists>c. run_complexity_analysis bare_host = Inr c \<and> cg_status c = ''passed''"
  by (simp add: run_complexity_analysis_def has_python_files_def has_shell_files_def
      bind_err_def max_default_def max_complexity_def max_lines_def)

lemma bare_scan: "run_security_scan bare_host = Inr bare_buckets"
proof -
  have "run_bandit bare_host = FileNotFound" by (simp add: bare_host_def)
  then show ?thesis
    by (simp add: run_security_scan_def append_high_def gate_buckets_def dict_get_def
        bind_err_def bare_buckets_def fun_eq_iff)
qed

lemma bare_security:
  "\<exists>s. run_security_scanning bare_host = Inr s \<and> sg_status s = ''passed''"
  by (simp add: run_security_scanning_def security_try_def bare_scan)
    (simp add: bare_buckets_def dict_get_def bind_err_def max_critical_def max_high_def
      max_medium_def)

lemma bare_checks:
  "map (\<lambda>(name, check). check_status check) (basic_checks bare_host)
     = [''passed'', ''passed'', ''warning'', ''passed'']"
  by (simp add: basic_checks_def check_documentation_def check_naming_conventions_def
      check_code_structure_def check_best_practices_def finish_check_def required_dirs_def)

lemma bare_review:
  "\<exists>r. run_code_review_checks bare_host = Inr r \<and> rg_status r = ''warning''"
  by (simp add: run_code_review_checks_def review_try_def basic_checks_def
      check_documentation_def check_naming_conventions_def
      check_code_structure_def check_best_practices_def finish_check_def required_dirs_def)

lemma bare_run:
  "\<exists>report. run_all_quality_gates bare_host = Inr report"
proof -
  obtain c where c: "run_complexity_analysis bare_host = Inr c" using bare_complexity by blast
  obtain s where s: "run_security_scanning bare_host = Inr s" using bare_security by blast
  obtain r where r: "run_code_review_checks bare_host = Inr r" using bare_review by blast
  have "write_error bare_host = None" by (simp add: bare_host_def)
  then show ?thesis
    by (simp add: run_all_quality_gates_def bare_linting c s r bind_err_def Let_def)
qed

lemma bare_statuses:
  assumes "run_all_quality_gates bare_host = Inr report"
  shows "gate_items (report_gates report)
           = four_gates ''passed'' ''passed'' ''passed'' ''warning''
         \<and> report_overall_status report = ''warning''"
proof -
  obtain c where c: "run_complexity_analysis bare_host = Inr c" "cg_status c = ''passed''"
    using bare_complexity by blast
  obtain s where s: "run_security_scanning bare_host = Inr s" "sg_status s = ''passed''"
    using bare_security by blast
  obtain r where r: "run_code_review_checks bare_host = Inr r" "rg_status r = ''warning''"
    using bare_review by blast
  have w: "write_error bare_host = None" by (simp add: bare_host_def)
  have g: "gate_items (report_gates report)
             = four_gates ''passed'' ''passed'' ''passed'' ''warning''"
    using assms
    by (auto simp: run_all_quality_gates_def bare_linting c s r w bind_err_def Let_def
        gate_items_def)
  have "report_overall_status report = calculate_overall_status (gate_items (report_gates report))"
    using assms
    by (auto simp: run_all_quality_gates_def bare_linting c s r w bind_err_def Let_def)
  then show ?thesis
    using g by (simp add: calculate_overall_status_def four_gates_def)
qed

theorem run_all_quality_gates_decided_witness:
  "\<exists>report. run_all_quality_gates bare_host = Inr report
      \<and> gate_items (report_gates report)
          = four_gates ''passed'' ''passed'' ''passed'' ''warning''
      \<and> report_overall_status report = ''warning''
      \<and> report_overall_status report \<in> set decided_statuses"
proof -
  obtain report where r: "run_all_quality_gates bare_host = Inr report"
    using bare_run by blast
  show ?thesis
    using r bare_statuses [OF r] run_all_quality_gates_decided [OF r] by blast
qed

section \<open>The security gate on the scanner's own report\<close>

lemma scanner_init_summary:
  "scanner_calculate_summary SecurityScanner_init = Inr zero_scan_summary"
  by (simp add: scanner_calculate_summary_def SecurityScanner_init_def empty_buckets_def
      dict_get_def bind_err_def zero_scan_summary_def)

lemma scanner_init_recommendations:
  "scanner_generate_recommendations SecurityScanner_init =
     Inr [NoVulnerabilitiesFound, UseEnvironmentVariables, ValidateInput,
          UseParameterizedQueries, LeastPrivilege, ScanDependencies]"
  by (simp add: scanner_generate_recommendations_def scanner_init_summary bind_err_def
      zero_scan_summary_def)

lemma scan_all_files_init:
  "fst (scan_all_files lib proj SecurityScanner_init) =
     Inr \<lparr>sr_vulnerabilities = empty_buckets, sr_summary = zero_scan_summary,
          sr_languages = scan_languages lib proj,
          sr_recommendations = [NoVulnerabilitiesFound, UseEnvironmentVariables, ValidateInput,
                                UseParameterizedQueries, LeastPrivilege, ScanDependencies]\<rparr>"
  unfolding scan_all_files_def scanner_init_summary scanner_init_recommendations
  by (simp add: bind_err_def Let_def scan_languages_def SecurityScanner_init_def)

lemma critical_command_wins:
  assumes "substr_in ''rm -rf /'' line"
  shows "check_shell_vulnerability search line line_num file_path =
           Some \<lparr>vuln_file = file_path, vuln_line = line_num, vuln_severity = ''critical'',
                 vuln_issue = ''Dangerous rm command'', vuln_code = Some line,
                 vuln_recommendation = ''Never use rm -rf / - specify exact paths''\<rparr>"
  using assms
  by (simp add: check_shell_vulnerability_def dangerous_commands_def dangerous_entry_def)

lemma rm_shell_glob: "glob_suffix (rm_project script_text) ''.sh'' = [deploy_sh]"
  by (simp add: glob_suffix_def rm_project_def deploy_sh_def entry_name_def endswith_def)

lemma rm_shell_file: "scan_shell_file lib (rm_project script_text) deploy_sh = [rm_entry]"
proof -
  have l: "split_lines ''rm -rf /tmp/cache'' = [''rm -rf /tmp/cache'']" by code_simp
  have s: "strip ''rm -rf /tmp/cache'' = ''rm -rf /tmp/cache''" by code_simp
  have c: "substr_in ''rm -rf /'' ''rm -rf /tmp/cache''" by code_simp
  have p: "path_str (rm_project script_text) deploy_sh = ''/repo/deploy.sh''"
    by (simp add: path_str_def rm_project_def deploy_sh_def)
  have r: "fe_read deploy_sh = Inr ''rm -rf /tmp/cache''" by (simp add: deploy_sh_def)
  show ?thesis
    by (simp add: scan_shell_file_def r l scan_lines_def List.map_filter_def enumerate_eq_zip s
        critical_command_wins [OF c] p rm_entry_def)
qed

lemma rm_shell_scan:
  "scan_shell_scripts lib (rm_project script_text)
     = Some \<lparr>sl_files_scanned = Some 1, sl_vulnerabilities = [rm_entry]\<rparr>"
  by (simp add: scan_shell_scripts_def rm_shell_glob rm_shell_file)

lemma rm_shell_language:
  "(''shell'', \<lparr>sl_files_scanned = Some 1, sl_vulnerabilities = [rm_entry]\<rparr>)
     \<in> set (scan_languages lib (rm_project script_text))"
  by (simp add: scan_languages_def rm_shell_scan language_item_def)

lemma gate_on_scanner_report:
  assumes "path_exists (host_proj h) [''quality-gates'', ''security'', ''scan_security.py'']"
    and "sr_vulnerabilities results = empty_buckets"
  shows "\<exists>gate. run_security_scanning (after_scanner_run h results) = Inr gate
           \<and> sg_status gate = ''passed''
           \<and> gate_critical_count (sg_summary gate) = 0"
proof -
  have t: "security_try (after_scanner_run h results) = Inr (report_buckets results)"
    using assms(1) by (simp add: security_try_def after_scanner_run_def)
  show ?thesis
    unfolding run_security_scanning_def t
    by (simp add: report_buckets_def assms(2) empty_buckets_def dict_get_def bind_err_def
        max_critical_def max_high_def max_medium_def)
qed

lemma rm_script_exists:
  "path_exists (host_proj (h\<lparr>host_proj := rm_project script_text\<rparr>))
     [''quality-gates'', ''security'', ''scan_security.py'']"
  by (simp add: path_exists_def rm_project_def)

text \<open>
  C2 (the code departs from the claim): for the project whose shell script consists of
  the line \<^verbatim>\<open>rm -rf /tmp/cache\<close>, for every library and every text of the scanner script,
  \<^verbatim>\<open>scan_all_files\<close> of a fresh scanner reports exactly one entry for the shell script, of
  severity critical, under \<^verbatim>\<open>results["languages"]["shell"]\<close>; its buckets
  \<^verbatim>\<open>results["vulnerabilities"]\<close> and its summary count no critical entry, and the security
  gate that reads this report after a successful run of the scanner script has critical
  count 0 and status passed, not failed.
\<close>

theorem security_gate_misses_critical_finding:
  "\<exists>results gate.
      fst (scan_all_files lib (rm_project script_text) SecurityScanner_init) = Inr results
      \<and> (''shell'', \<lparr>sl_files_scanned = Some 1, sl_vulnerabilities = [rm_entry]\<rparr>)
           \<in> set (sr_languages results)
      \<and> vuln_severity rm_entry = ''critical''
      \<and> sr_vulnerabilities results ''critical'' = Some []
      \<and> critical_count (sr_summary results) = 0
      \<and> run_security_scanning
            (after_scanner_run (h\<lparr>host_proj := rm_project script_text\<rparr>) results) = Inr gate
      \<and> gate_critical_count (sg_summary gate) = 0
      \<and> sg_status gate = ''passed''"
proof -
  define results where "results =
     \<lparr>sr_vulnerabilities = empty_buckets, sr_summary = zero_scan_summary,
      sr_languages = scan_languages lib (rm_project script_text),
      sr_recommendations = [NoVulnerabilitiesFound, UseEnvironmentVariables, ValidateInput,
                            UseParameterizedQueries, LeastPrivilege, ScanDependencies]\<rparr>"
  have r: "fst (scan_all_files lib (rm_project script_text) SecurityScanner_init) = Inr results"
    by (simp add: scan_all_files_init results_def)
  have v: "sr_vulnerabilities results = empty_buckets" by (simp add: results_def)
  obtain gate where g:
    "run_security_scanning
       (after_scanner_run (h\<lparr>host_proj := rm_project script_text\<rparr>) results) = Inr gate"
    "sg_status gate = ''passed''" "gate_critical_count (sg_summary gate) = 0"
    using gate_on_scanner_report [OF rm_script_exists v] by blast
  have "(''shell'', \<lparr>sl_files_scanned = Some 1, sl_vulnerabilities = [rm_entry]\<rparr>)
          \<in> set (sr_languages results)"
    using rm_shell_language [of lib script_text] by (simp add: results_def)
  moreover have "sr_vulnerabilities results ''critical'' = Some []"
    by (simp add: results_def empty_buckets_def)
  moreover have "critical_count (sr_summary results) = 0"
    by (simp add: results_def zero_scan_summary_def)
  moreover have "vuln_severity rm_entry = ''critical''" by (simp add: rm_entry_def)
  ultimately show ?thesis using r g by blast
qed


section \<open>Files that do not parse\<close>












section \<open>Repeated runs of the analyzers\<close>

lemma strip_meta_simps [simp]:
  "fe_path (strip_meta e) = fe_path e" "fe_read (strip_meta e) = fe_read e"
  "entry_name (strip_meta e) = entry_name e"
  by (simp_all add: strip_meta_def entry_name_def)

lemma strip_project_simps [simp]:
  "project_root (strip_project p) = project_root p"
  "entries (strip_project p) = map strip_meta (entries p)"
  by (simp_all add: strip_project_def)

lemma path_str_strip [simp]: "path_str (strip_project p) (strip_meta e) = path_str p e"
  by (simp add: path_str_def)

lemma glob_suffix_strip [simp]:
  "glob_suffix (strip_project p) suffix = map strip_meta (glob_suffix p suffix)"
  by (simp add: glob_suffix_def filter_map comp_def)

lemma glob_prefix_strip [simp]:
  "glob_prefix (strip_project p) prefix = map strip_meta (glob_prefix p prefix)"
  by (simp add: glob_prefix_def filter_map comp_def)



lemma analyze_python_file_strip [simp]:
  "analyze_python_file lib (strip_project p) (strip_meta e) = analyze_python_file lib p e"
  by (simp add: analyze_python_file_def Let_def split: sum.splits parse_result.splits)

lemma analyze_shell_file_strip [simp]:
  "analyze_shell_file lib (strip_project p) (strip_meta e) = analyze_shell_file lib p e"
  by (simp add: analyze_shell_file_def Let_def split: sum.splits parse_result.splits)

lemma analyze_javascript_file_strip [simp]:
  "analyze_javascript_file lib (strip_project p) (strip_meta e) = analyze_javascript_file lib p e"
  by (simp add: analyze_javascript_file_def Let_def split: sum.splits parse_result.splits)

lemma python_file_step_strip [simp]:
  "python_file_step lib th (strip_project p) r (strip_meta e) = python_file_step lib th p r e"
  by (simp add: python_file_step_def Let_def split: sum.splits parse_result.splits)

lemma shell_file_step_strip [simp]:
  "shell_file_step lib th (strip_project p) r (strip_meta e) = shell_file_step lib th p r e"
  by (simp add: shell_file_step_def Let_def split: sum.splits parse_result.splits)

lemma js_file_step_strip [simp]:
  "js_file_step lib th (strip_project p) r (strip_meta e) = js_file_step lib th p r e"
  by (simp add: js_file_step_def Let_def split: sum.splits parse_result.splits)





lemma review_python_file_strip [simp]:
  "review_python_file lib (strip_project p) (strip_meta e) = review_python_file lib p e"
  by (simp add: review_python_file_def Let_def split: sum.splits parse_result.splits)

lemma review_shell_file_strip [simp]:
  "review_shell_file lib (strip_project p) (strip_meta e) = review_shell_file lib p e"
  by (simp add: review_shell_file_def Let_def split: sum.splits parse_result.splits)

lemma review_config_file_strip [simp]:
  "review_config_file (strip_project p) (strip_meta e) = review_config_file p e"
  by (simp add: review_config_file_def Let_def split: sum.splits parse_result.splits)

lemma undocumented_in_file_strip [simp]:
  "undocumented_in_file lib (strip_meta e) = undocumented_in_file lib e"
  by (simp add: undocumented_in_file_def Let_def split: sum.splits parse_result.splits)



















section \<open>The security gate without the scanner script\<close>

lemma shell_only_scan:
  "run_security_scan shell_only_host =
     Inr [''critical'' \<mapsto> [], ''high'' \<mapsto> [Basic ''/repo/deploy.sh'' ''Dangerous: rm -rf /''],
          ''medium'' \<mapsto> [], ''low'' \<mapsto> [],
          ''info'' \<mapsto> [Basic ''system'' ''bandit not available for Python security scanning'']]"
proof -
  have b: "run_bandit shell_only_host = FileNotFound"
    by (simp add: shell_only_host_def bare_host_def)
  have g: "glob_suffix (host_proj shell_only_host) ''.sh'' = [deploy_sh]"
    by (simp add: shell_only_host_def glob_suffix_def deploy_sh_def entry_name_def endswith_def)
  have c: "substr_in ''rm -rf /'' ''rm -rf /tmp/cache''"
    "\<not> substr_in ''chmod 777'' ''rm -rf /tmp/cache''"
    "\<not> substr_in ''sudo'' ''rm -rf /tmp/cache''"
    by code_simp+
  have i: "basic_shell_issues shell_only_host deploy_sh
             = [Basic ''/repo/deploy.sh'' ''Dangerous: rm -rf /'']"
    by (simp add: basic_shell_issues_def deploy_sh_def c path_str_def shell_only_host_def)
  show ?thesis
    by (simp add: run_security_scan_def b g i append_high_def gate_buckets_def dict_get_def
        bind_err_def fun_eq_iff)
qed

text \<open>Without the scanner script the manager never runs the scanner: its fallback scan
  files the shell script under high, and the gate fails with critical count 0.\<close>

lemma security_gate_fallback_without_scanner:
  "\<exists>gate. run_security_scanning shell_only_host = Inr gate
      \<and> sg_status gate = ''failed''
      \<and> gate_critical_count (sg_summary gate) = 0
      \<and> gate_high_count (sg_summary gate) = 1"
proof -
  have t: "security_try shell_only_host = run_security_scan shell_only_host"
    by (simp add: security_try_def path_exists_def shell_only_host_def deploy_sh_def)
  show ?thesis
    unfolding run_security_scanning_def t shell_only_scan
    by (simp add: dict_get_def bind_err_def max_critical_def max_high_def)
qed


section \<open>A line with two dangerous calls\<close>

text \<open>The line \<^verbatim>\<open>eval(input())\<close> matches the patterns of \<^verbatim>\<open>eval(\<close> and of \<^verbatim>\<open>input(\<close>; for
  every matcher the check returns the entry of \<^verbatim>\<open>eval(\<close> alone.\<close>

lemma eval_input_dangerous:
  "filter (\<lambda>(pattern, vuln_info). substr_in pattern ''eval(input())'') dangerous_functions
     = [(''eval('', ''critical'', ''Use of eval() function'',
           ''Avoid eval() - use ast.literal_eval() for safe evaluation''),
        (''input('', ''medium'', ''Use of input() in Python 2 style'',
           ''Use proper input validation'')]"
  by (simp add: dangerous_functions_def)

lemma two_matches_one_finding:
  "check_python_vulnerability search ''eval(input())'' 3 ''/repo/app.py''
     = Some \<lparr>vuln_file = ''/repo/app.py'', vuln_line = 3, vuln_severity = ''critical'',
             vuln_issue = ''Use of eval() function'', vuln_code = Some ''eval(input())'',
             vuln_recommendation = ''Avoid eval() - use ast.literal_eval() for safe evaluation''\<rparr>
   \<and> 2 \<le> length (python_line_matches search ''eval(input())'' 3 ''/repo/app.py'')"
  unfolding check_python_vulnerability_def python_line_matches_def find_first_of_filter
    eval_input_dangerous
  by (simp add: first_of_def dangerous_entry_def)


section \<open>A file of exactly 300 lines is reported as long\<close>

text \<open>
  \<^verbatim>\<open>content.split('\n')\<close> of a text whose every line ends with a newline has one part more
  than the text has lines: the last part is the empty string after the final newline.
\<close>

lemma split_lines_terminated:
  "split_lines (concat (replicate n ''x\<newline>'')) = replicate n ''x'' @ [[]]"
proof (induction n)
  case 0
  show ?case by (simp add: split_lines_def split_on.simps)
next
  case (Suc n)
  have "split_on (CHR ''x'' # CHR ''\<newline>'' # rest) ''\<newline>''
          = ''x'' # split_on rest ''\<newline>''" for rest
    by (simp add: split_on.simps [of "CHR ''x'' # CHR ''\<newline>'' # rest"]
        split_on.simps [of "CHR ''\<newline>'' # rest"])
  then show ?case using Suc by (simp add: split_lines_def)
qed

lemma newlines_terminated:
  "length (filter (\<lambda>c. c = CHR ''\<newline>'') (concat (replicate n ''x\<newline>''))) = n"
  by (induction n) simp_all

lemma long_total_lines: "length (split_lines long_source) = 301"
  by (simp add: long_source_def split_lines_terminated)

lemma walk_queue_leaves: "walk_queue (replicate n (Other [])) = replicate n (Other [])"
  by (induction n) simp_all

lemma walk_functions_leaves: "walk_functions lines (replicate n (Other [])) = []"
  by (induction n) simp_all

lemma walk_classes_leaves: "walk_classes (replicate n (Other [])) = []"
  by (induction n) simp_all

lemma long_file:
  "analyze_python_file long_lib long_project long_py =
     Inr \<lparr>fi_file = ''/repo/long.py'', fi_total_lines = 301, fi_functions = [],
          fi_classes = []\<rparr>"
proof -
  have r: "fe_read long_py = Inr long_source" by (simp add: long_py_def)
  have a: "ast_parse long_lib long_source = Parsed long_tree" by (simp add: long_lib_def)
  have p: "path_str long_project long_py = ''/repo/long.py''"
    by (simp add: path_str_def long_project_def long_py_def)
  have w: "ast_walk long_tree = long_tree # replicate 300 (Other [])"
    by (simp add: ast_walk_def long_tree_def walk_queue_leaves)
  have f: "walk_functions lines (ast_walk long_tree) = []" for lines
    unfolding w by (simp add: long_tree_def walk_functions_leaves)
  have c: "walk_classes (ast_walk long_tree) = []"
    unfolding w by (simp add: long_tree_def walk_classes_leaves)
  show ?thesis
    by (simp add: analyze_python_file_def r a p f c long_total_lines Let_def)
qed

text \<open>
  C5 (the code departs from the claim): the claim has no \<^verbatim>\<open>long_files\<close> entry for a file of
  exactly 300 lines. The file \<^verbatim>\<open>long.py\<close> has 300 lines, each ended by its newline (300
  newline characters, nothing after the last one), and no function. \<^verbatim>\<open>analyze_python_files\<close>
  under the thresholds of \<^verbatim>\<open>__init__\<close> measures it as \<^verbatim>\<open>total_lines\<close> 301, the length of
  \<^verbatim>\<open>content.split('\n')\<close>, which is above 300, and records a \<^verbatim>\<open>long_files\<close> entry of 301 lines
  for it.
\<close>

theorem file_of_300_lines_flagged_long:
  "long_source = concat (replicate 300 ''x\<newline>'')
   \<and> length (filter (\<lambda>c. c = CHR ''\<newline>'') long_source) = 300
   \<and> analyze_python_files long_lib analyzer_thresholds long_project =
       Some \<lparr>lr_file_count = 1,
             lr_files = [\<lparr>fi_file = ''/repo/long.py'', fi_total_lines = 301,
                          fi_functions = [], fi_classes = []\<rparr>],
             lr_complex_functions = [], lr_long_functions = [],
             lr_long_files = [\<lparr>lg_file = ''/repo/long.py'', lg_lines = 301\<rparr>]\<rparr>"
proof -
  have n: "length (filter (\<lambda>c. c = CHR ''\<newline>'') long_source) = 300"
    unfolding long_source_def by (rule newlines_terminated)
  have g: "glob_suffix long_project ''.py'' = [long_py]"
    by (simp add: glob_suffix_def long_project_def long_py_def entry_name_def endswith_def)
  have p: "path_str long_project long_py = ''/repo/long.py''"
    by (simp add: path_str_def long_project_def long_py_def)
  have run: "analyze_python_files long_lib analyzer_thresholds long_project =
       Some \<lparr>lr_file_count = 1,
             lr_files = [\<lparr>fi_file = ''/repo/long.py'', fi_total_lines = 301,
                          fi_functions = [], fi_classes = []\<rparr>],
             lr_complex_functions = [], lr_long_functions = [],
             lr_long_files = [\<lparr>lg_file = ''/repo/long.py'', lg_lines = 301\<rparr>]\<rparr>"
    by (simp add: analyze_python_files_def g python_file_step_def
        long_file p empty_report_def complex_entries_def long_entries_def
        long_file_entries_def analyzer_thresholds_def)
  show ?thesis using n run by (simp add: long_source_def)
qed

end
